theory Spec2Isabelle
  imports Complex_Main
begin

section \<open>Python values used by the program\<close>

text \<open>
  A Python \<open>str\<close> is modelled as a \<^typ>\<open>string\<close> whose characters are the code points
  0..255. Exceptions are values of \<open>py_error\<close>; a call that may raise returns
  \<open>py_error + 'a\<close> with \<open>Inl\<close> for the exception.
\<close>

datatype py_error =
    IndexError
  | KeyError string
  | ValueError string
  | AttributeError string
  | OSError string
  | GatewayError string

fun str_of_error :: "py_error \<Rightarrow> string" where
  "str_of_error IndexError = ''list index out of range''"
| "str_of_error (KeyError m) = m"
| "str_of_error (ValueError m) = m"
| "str_of_error (AttributeError m) = m"
| "str_of_error (OSError m) = m"
| "str_of_error (GatewayError m) = m"

text \<open>\<open>str.isspace\<close> on the code points below 256, the separators of \<open>str.split()\<close>.\<close>

definition is_space :: "char \<Rightarrow> bool" where
  "is_space c =
     (let n = (of_char c :: nat)
      in (9 \<le> n \<and> n \<le> 13) \<or> (28 \<le> n \<and> n \<le> 32) \<or> n = 133 \<or> n = 160)"

text \<open>\<open>text.split()\<close>: maximal runs of non-whitespace, in order; no empty words.\<close>

fun split_acc :: "string \<Rightarrow> string \<Rightarrow> string list" where
  "split_acc cur [] = (if cur = [] then [] else [cur])"
| "split_acc cur (c # cs) =
     (if is_space c
      then (if cur = [] then split_acc [] cs else cur # split_acc [] cs)
      else split_acc (cur @ [c]) cs)"

definition py_split :: "string \<Rightarrow> string list" where
  "py_split s = split_acc [] s"

text \<open>\<open>sep.join(xs)\<close>.\<close>

fun py_join :: "string \<Rightarrow> string list \<Rightarrow> string" where
  "py_join sep [] = []"
| "py_join sep [x] = x"
| "py_join sep (x # y # ys) = x @ sep @ py_join sep (y # ys)"

text \<open>
  \<open>xs[i:j]\<close> for integers \<open>i\<close>, \<open>j\<close>: a negative bound counts from the end, and both
  bounds are clamped to \<open>0..len(xs)\<close>.
\<close>

definition slice_bound :: "nat \<Rightarrow> int \<Rightarrow> nat" where
  "slice_bound n i = (if i < 0 then nat (max (i + int n) 0) else min (nat i) n)"

definition py_slice :: "'a list \<Rightarrow> int \<Rightarrow> int \<Rightarrow> 'a list" where
  "py_slice xs i j =
     (let lo = slice_bound (length xs) i; hi = slice_bound (length xs) j
      in take (hi - lo) (drop lo xs))"

text \<open>\<open>s.startswith(p)\<close>.\<close>

definition startswith :: "string \<Rightarrow> string \<Rightarrow> bool" where
  "startswith s p = (take (length p) s = p)"

section \<open>MCPServer.chunk_text (mcp_server.py)\<close>

record chunk_info =
  c_text :: string
  c_file_id :: "string option"
  c_file_name :: "string option"
  c_file_type :: "string option"

text \<open>
  The \<open>while i < len(words)\<close> loop. Nothing in the loop bounds the number of
  iterations, so it is a partial function: \<open>None\<close> is a loop that never ends.
\<close>

partial_function (option) chunk_loop ::
  "string list \<Rightarrow> int \<Rightarrow> int \<Rightarrow> string option \<Rightarrow> string option \<Rightarrow> string option
     \<Rightarrow> int \<Rightarrow> chunk_info list \<Rightarrow> chunk_info list option" where
  "chunk_loop words chunk_size overlap fid fname ftype i chunks =
     (if i < int (length words)
      then chunk_loop words chunk_size overlap fid fname ftype (i + (chunk_size - overlap))
             (chunks @ [\<lparr>c_text = py_join '' '' (py_slice words i (i + chunk_size)),
                         c_file_id = fid, c_file_name = fname, c_file_type = ftype\<rparr>])
      else Some chunks)"

declare chunk_loop.simps [code]

definition chunk_text ::
  "string \<Rightarrow> int \<Rightarrow> int \<Rightarrow> string option \<Rightarrow> string option \<Rightarrow> string option
     \<Rightarrow> chunk_info list option" where
  "chunk_text txt chunk_size overlap fid fname ftype =
     chunk_loop (py_split txt) chunk_size overlap fid fname ftype 0 []"

text \<open>The \<open>k\<close>-th window of a token list: \<open>wsize\<close> tokens from position \<open>k * stride\<close>.\<close>

definition window :: "string list \<Rightarrow> nat \<Rightarrow> nat \<Rightarrow> nat \<Rightarrow> string list" where
  "window words wsize stride k = take wsize (drop (k * stride) words)"

definition window_count :: "nat \<Rightarrow> nat \<Rightarrow> nat" where
  "window_count n stride = (n + stride - 1) div stride"

section \<open>External collaborators\<close>

text \<open>
  The embedding model, the FAISS index search and the generation model are outside the
  repository. They are the fields of one record, so that every theorem holds whatever they
  compute. A vector is a value of the type \<open>'v\<close>.
  \<^item> \<open>embed\<close> is the vector \<open>SentenceTransformer.encode\<close> gives one text, and
    \<open>encode_error\<close> says which batches make the call raise;
  \<^item> \<open>normalize_L2\<close> is \<open>faiss.normalize_L2\<close> on one row;
  \<^item> \<open>search_ip\<close> and \<open>search_l2\<close> are \<open>index.search(q, top_k)\<close> on an
    \<open>IndexFlatIP\<close> and an \<open>IndexFlatL2\<close> holding the given vectors: the rows
    \<open>scores[0]\<close> and \<open>indices[0]\<close>;
  \<^item> \<open>generate\<close> is \<open>ollama.generate(model, prompt, options)['response']\<close>.
  The vectors have one fixed dimension, so \<open>np.vstack\<close> and \<open>index.add\<close> do not fail.
\<close>

record 'v gateways =
  embed :: "string \<Rightarrow> 'v"
  encode_error :: "string list \<Rightarrow> py_error option"
  normalize_L2 :: "'v \<Rightarrow> 'v"
  search_ip :: "'v list \<Rightarrow> 'v list \<Rightarrow> int \<Rightarrow> real list \<times> int list"
  search_l2 :: "'v list \<Rightarrow> 'v list \<Rightarrow> int \<Rightarrow> real list \<times> int list"
  generate :: "string \<Rightarrow> string \<Rightarrow> py_error + string"

definition encode :: "'v gateways \<Rightarrow> string list \<Rightarrow> py_error + 'v list" where
  "encode g texts =
     (case encode_error g texts of Some e \<Rightarrow> Inl e | None \<Rightarrow> Inr (map (embed g) texts))"

text \<open>\<open>xs[i]\<close> for an integer \<open>i\<close>: a negative index counts from the end.\<close>

definition py_index :: "'a list \<Rightarrow> int \<Rightarrow> py_error + 'a" where
  "py_index xs i =
     (if 0 \<le> i \<and> i < int (length xs) then Inr (xs ! nat i)
      else if i < 0 \<and> - int (length xs) \<le> i then Inr (xs ! nat (i + int (length xs)))
      else Inl IndexError)"

text \<open>A list comprehension whose element expression may raise: the first exception wins.\<close>

fun collect :: "(py_error + 'a) list \<Rightarrow> py_error + 'a list" where
  "collect [] = Inr []"
| "collect (Inl e # rs) = Inl e"
| "collect (Inr x # rs) = (case collect rs of Inl e \<Rightarrow> Inl e | Inr xs \<Rightarrow> Inr (x # xs))"

section \<open>MCPWrapperOllama (mcp_ollama.py)\<close>

text \<open>
  \<open>w_index = None\<close> is \<open>self.index is None\<close>; otherwise it holds the vectors added so
  far, in order, so \<open>index.ntotal\<close> is their number. \<open>w_embedder_calls\<close> is the history of
  the batches passed to \<open>self.embedder.encode\<close>.
\<close>

record 'v wrapper =
  w_model_name :: string
  w_chunk_size :: int
  w_index :: "'v list option"
  w_doc_chunks :: "string list"
  w_embedder_calls :: "string list list"

definition wrapper_init :: "string \<Rightarrow> int \<Rightarrow> 'v wrapper" where
  "wrapper_init name csize =
     \<lparr>w_model_name = name, w_chunk_size = csize, w_index = None, w_doc_chunks = [],
      w_embedder_calls = []\<rparr>"

definition ntotal :: "'v wrapper \<Rightarrow> nat" where
  "ntotal w = (case w_index w of None \<Rightarrow> 0 | Some vs \<Rightarrow> length vs)"

text \<open>\<open>range(0, n, step)\<close> for \<open>n = len(words)\<close>: a zero step raises, a negative one is empty.\<close>

definition py_range :: "nat \<Rightarrow> int \<Rightarrow> py_error + nat list" where
  "py_range n step =
     (if step = 0 then Inl (ValueError ''range() arg 3 must not be zero'')
      else if step < 0 then Inr []
      else Inr (map (\<lambda>k. k * nat step) [0..<window_count n (nat step)]))"

definition ollama_chunk_text :: "'v wrapper \<Rightarrow> string \<Rightarrow> py_error + string list" where
  "ollama_chunk_text w txt =
     (let words = py_split txt
      in case py_range (length words) (w_chunk_size w) of
           Inl e \<Rightarrow> Inl e
         | Inr starts \<Rightarrow>
             Inr (map (\<lambda>i. py_join '' '' (py_slice words (int i) (int i + w_chunk_size w))) starts))"

text \<open>
  The \<open>for doc in documents\<close> loop of ingest_documents. The chunks of a document are
  appended to \<open>doc_chunks\<close> before they are embedded; an exception leaves the wrapper as
  mutated so far.
\<close>

fun ingest_loop ::
  "'v gateways \<Rightarrow> string list \<Rightarrow> 'v wrapper \<Rightarrow> 'v list list
     \<Rightarrow> (py_error + 'v list list) \<times> 'v wrapper" where
  "ingest_loop g [] w embeddings = (Inr embeddings, w)"
| "ingest_loop g (doc # docs) w embeddings =
     (case ollama_chunk_text w doc of
        Inl e \<Rightarrow> (Inl e, w)
      | Inr chunks \<Rightarrow>
          (let w1 = w\<lparr>w_doc_chunks := w_doc_chunks w @ chunks,
                       w_embedder_calls := w_embedder_calls w @ [chunks]\<rparr>
           in case encode g chunks of
                Inl e \<Rightarrow> (Inl e, w1)
              | Inr vectors \<Rightarrow>
                  ingest_loop g docs w1 (embeddings @ [map (normalize_L2 g) vectors])))"

definition ingest_documents ::
  "'v gateways \<Rightarrow> 'v wrapper \<Rightarrow> string list \<Rightarrow> bool \<Rightarrow> (py_error + unit) \<times> 'v wrapper" where
  "ingest_documents g w documents refresh =
     (let w0 = (if refresh
                then w\<lparr>w_doc_chunks := [],
                       w_index := (case w_index w of None \<Rightarrow> None | Some vs \<Rightarrow> Some [])\<rparr>
                else w)
      in case ingest_loop g documents w0 [] of
           (Inl e, w1) \<Rightarrow> (Inl e, w1)
         | (Inr embeddings, w1) \<Rightarrow>
             if embeddings = [] then (Inr (), w1)
             else (Inr (), w1\<lparr>w_index :=
                      Some ((case w_index w1 of None \<Rightarrow> [] | Some vs \<Rightarrow> vs) @ concat embeddings)\<rparr>))"

definition retrieve_with_scores ::
  "'v gateways \<Rightarrow> 'v wrapper \<Rightarrow> string \<Rightarrow> int
     \<Rightarrow> (py_error + string list \<times> real list) \<times> 'v wrapper" where
  "retrieve_with_scores g w query top_k =
     (case w_index w of
        None \<Rightarrow> (Inr ([], []), w)
      | Some vs \<Rightarrow>
          if length (w_doc_chunks w) = 0 then (Inr ([], []), w)
          else
            (let w1 = w\<lparr>w_embedder_calls := w_embedder_calls w @ [[query]]\<rparr>
             in case encode g [query] of
                  Inl e \<Rightarrow> (Inl e, w1)
                | Inr query_vector \<Rightarrow>
                    (let (scores, indices) = search_ip g vs (map (normalize_L2 g) query_vector) top_k
                     in case collect (map (py_index (w_doc_chunks w)) (filter (\<lambda>i. i \<noteq> - 1) indices)) of
                          Inl e \<Rightarrow> (Inl e, w1)
                        | Inr results \<Rightarrow> (Inr (results, filter (\<lambda>s. s \<noteq> - 1) scores), w1))))"

definition build_prompt :: "string \<Rightarrow> string list \<Rightarrow> string" where
  "build_prompt question context_chunks =
     (let context = (if context_chunks \<noteq> [] then py_join ''\<newline>\<newline>'' context_chunks else [])
      in if context \<noteq> []
         then ''Context:\<newline>'' @ context @ ''\<newline>\<newline>Question:\<newline>'' @ question @ ''\<newline>Answer:''
         else ''Question:\<newline>'' @ question @ ''\<newline>Answer:'')"

text \<open>
  The \<open>if\<close>/\<open>elif\<close>/\<open>else\<close> of query that builds the prompt. \<open>scores[0]\<close> is read only
  when \<open>relevant_chunks\<close> is not empty, and raises on an empty score list.
\<close>

definition query_prompt ::
  "string \<Rightarrow> string list \<Rightarrow> real list \<Rightarrow> real \<Rightarrow> real \<Rightarrow> py_error + string" where
  "query_prompt question relevant_chunks scores strong_threshold weak_threshold =
     (if relevant_chunks = [] then Inr (''Question:\<newline>'' @ question @ ''\<newline>Answer:'')
      else case scores of
             [] \<Rightarrow> Inl IndexError
           | s # _ \<Rightarrow>
               if s \<ge> strong_threshold then Inr (build_prompt question relevant_chunks)
               else if s \<ge> weak_threshold
               then Inr (''Use the following context if relevant, but also apply your own reasoning:\<newline>''
                         @ py_join ''\<newline>\<newline>'' relevant_chunks
                         @ ''\<newline>\<newline>Question:\<newline>'' @ question @ ''\<newline>Answer:'')
               else Inr (''Question:\<newline>'' @ question @ ''\<newline>Answer:''))"

definition query ::
  "'v gateways \<Rightarrow> 'v wrapper \<Rightarrow> string \<Rightarrow> real \<Rightarrow> real \<Rightarrow> int
     \<Rightarrow> (py_error + string) \<times> 'v wrapper" where
  "query g w question strong_threshold weak_threshold top_k =
     (case retrieve_with_scores g w question top_k of
        (Inl e, w1) \<Rightarrow> (Inl e, w1)
      | (Inr (relevant_chunks, scores), w1) \<Rightarrow>
          (case query_prompt question relevant_chunks scores strong_threshold weak_threshold of
             Inl e \<Rightarrow> (Inl e, w1)
           | Inr prompt \<Rightarrow> (generate g (w_model_name w) prompt, w1)))"

text \<open>
  The vectors of the index (none while \<open>self.index is None\<close>), the chunks
  \<open>chunk_text\<close> gives a document (none when it raises), and the alignment of the index
  with the chunk list: the \<open>i\<close>-th vector is the normalised embedding of the \<open>i\<close>-th chunk.
\<close>

definition index_vectors :: "'v wrapper \<Rightarrow> 'v list" where
  "index_vectors w = (case w_index w of None \<Rightarrow> [] | Some vs \<Rightarrow> vs)"

definition chunks_of :: "'v wrapper \<Rightarrow> string \<Rightarrow> string list" where
  "chunks_of w doc = (case ollama_chunk_text w doc of Inl e \<Rightarrow> [] | Inr chunks \<Rightarrow> chunks)"

definition aligned :: "'v gateways \<Rightarrow> 'v wrapper \<Rightarrow> bool" where
  "aligned g w =
     (index_vectors w = map (\<lambda>c. normalize_L2 g (embed g c)) (w_doc_chunks w))"

text \<open>
  A sequence of \<open>ingest_documents\<close> calls, each given as its documents and its
  \<open>refresh\<close> flag (\<open>True\<close> for a full rebuild, \<open>False\<close> for an incremental append), run
  until the first call that raises.
\<close>

fun run_ingests ::
  "'v gateways \<Rightarrow> 'v wrapper \<Rightarrow> (string list \<times> bool) list \<Rightarrow> py_error + 'v wrapper" where
  "run_ingests g w [] = Inr w"
| "run_ingests g w ((documents, refresh) # ops) =
     (case ingest_documents g w documents refresh of
        (Inl e, w1) \<Rightarrow> Inl e
      | (Inr u, w1) \<Rightarrow> run_ingests g w1 ops)"

section \<open>VectorIndex (vector_utils.py)\<close>

record 'v vector_index =
  vi_index :: "'v list option"
  vi_text_chunks :: "string list"
  vi_embeddings :: "'v list option"

definition vector_index_init :: "'v vector_index" where
  "vector_index_init = \<lparr>vi_index = None, vi_text_chunks = [], vi_embeddings = None\<rparr>"

text \<open>
  add_documents encodes first; the index, the embeddings and the chunk list change only
  after the call has returned its vectors.
\<close>

definition add_documents ::
  "'v gateways \<Rightarrow> 'v vector_index \<Rightarrow> string list \<Rightarrow> (py_error + unit) \<times> 'v vector_index" where
  "add_documents g vi docs =
     (case encode g docs of
        Inl e \<Rightarrow> (Inl e, vi)
      | Inr vectors \<Rightarrow>
          (case vi_index vi of
             None \<Rightarrow>
               (Inr (), vi\<lparr>vi_index := Some vectors, vi_embeddings := Some vectors,
                           vi_text_chunks := vi_text_chunks vi @ docs\<rparr>)
           | Some vs \<Rightarrow>
               (case vi_embeddings vi of
                  None \<Rightarrow> (Inl (ValueError ''all input arrays must have the same number of dimensions''), vi)
                | Some es \<Rightarrow>
                    (Inr (), vi\<lparr>vi_embeddings := Some (es @ vectors), vi_index := Some (vs @ vectors),
                                vi_text_chunks := vi_text_chunks vi @ docs\<rparr>))))"



definition vi_vectors :: "'v vector_index \<Rightarrow> 'v list" where
  "vi_vectors vi = (case vi_index vi of None \<Rightarrow> [] | Some vs \<Rightarrow> vs)"

definition vi_aligned :: "'v gateways \<Rightarrow> 'v vector_index \<Rightarrow> bool" where
  "vi_aligned g vi = (vi_vectors vi = map (embed g) (vi_text_chunks vi))"

text \<open>A sequence of add_documents calls; a call that raises is followed by the next one.\<close>

fun run_adds :: "'v gateways \<Rightarrow> 'v vector_index \<Rightarrow> string list list \<Rightarrow> 'v vector_index" where
  "run_adds g vi [] = vi"
| "run_adds g vi (docs # rest) = run_adds g (snd (add_documents g vi docs)) rest"

section \<open>MCPServer (mcp_server.py)\<close>

text \<open>
  The file system and the standard library calls of ingest_file are the fields of one
  record: \<open>pathlib\<close> (\<open>exists\<close>, \<open>stat().st_size\<close>, \<open>name\<close>, \<open>suffix\<close>, \<open>absolute()\<close>,
  \<open>str(path)\<close>), whether \<open>open(path, 'rb')\<close> raises, what the \<open>k\<close>-th \<open>f.read(4096)\<close>
  on the path returns (the empty string at the end of the file), \<open>hashlib.sha256\<close>,
  \<open>mimetypes.guess_type\<close>, the text of the pages \<open>PyPDF2\<close> extracts, the outcome of
  reading a file in one encoding, \<open>datetime.now().isoformat()\<close>, and the outcome of
  writing \<open>files_db.json\<close>: written, not opened, or opened (so truncated) and not
  completed.
\<close>

datatype write_result = Written | OpenFailed | DumpFailed

datatype read_result = Decoded string | UnicodeDecodeError | ReadError py_error

record world =
  path_exists :: "string \<Rightarrow> py_error + bool"
  file_open :: "string \<Rightarrow> py_error option"
  file_read :: "string \<Rightarrow> nat \<Rightarrow> py_error + string"
  sha256_hexdigest :: "string \<Rightarrow> string"
  stat_size :: "string \<Rightarrow> py_error + int"
  guess_type :: "string \<Rightarrow> string option"
  path_name :: "string \<Rightarrow> string"
  path_suffix :: "string \<Rightarrow> string"
  path_absolute :: "string \<Rightarrow> string"
  path_str :: "string \<Rightarrow> string"
  pdf_pages :: "string \<Rightarrow> py_error + string option list"
  read_text :: "string \<Rightarrow> string \<Rightarrow> read_result"
  now_isoformat :: string
  write_db :: write_result

datatype pyval = PyStr string | PyInt int

record file_info =
  fi_id :: string
  fi_name :: string
  fi_path :: string
  fi_size :: int
  fi_type :: string
  fi_content :: string
  fi_ingested_at :: string
  fi_metadata :: "(string \<times> string) list"

text \<open>
  \<open>ingested_files\<close> is a dict in insertion order; \<open>chunk_metadata = None\<close> is the
  attribute not created yet; \<open>files_db_json\<close> is the dict that \<open>files_db.json\<close> holds,
  \<open>None\<close> when the file is missing or is not a JSON document.
\<close>

record 'v server =
  ingested_files :: "(string \<times> file_info) list"
  vector_index :: "'v vector_index"
  chunk_metadata :: "chunk_info list option"
  files_db_json :: "(string \<times> file_info) list option"

text \<open>\<open>MCPServer()\<close>: load_files_db gives the empty dict when it cannot read the file.\<close>

definition server_init :: "(string \<times> file_info) list option \<Rightarrow> 'v server" where
  "server_init disk =
     \<lparr>ingested_files = (case disk of None \<Rightarrow> [] | Some db \<Rightarrow> db),
      vector_index = vector_index_init, chunk_metadata = None, files_db_json = disk\<rparr>"

text \<open>\<open>d[k] = v\<close> on a dict kept as a list of pairs.\<close>

fun dict_set :: "('k \<times> 'a) list \<Rightarrow> 'k \<Rightarrow> 'a \<Rightarrow> ('k \<times> 'a) list" where
  "dict_set [] k v = [(k, v)]"
| "dict_set ((k', v') # d) k v = (if k' = k then (k, v) # d else (k', v') # dict_set d k v)"

text \<open>\<open>s.lower()\<close> on the code points below 256.\<close>

definition lower_char :: "char \<Rightarrow> char" where
  "lower_char c =
     (let n = (of_char c :: nat)
      in if (65 \<le> n \<and> n \<le> 90) \<or> (192 \<le> n \<and> n \<le> 222 \<and> n \<noteq> 215) then char_of (n + 32) else c)"

definition lower :: "string \<Rightarrow> string" where
  "lower s = map lower_char s"

text \<open>\<open>str(n)\<close> for an integer.\<close>

fun str_of_nat :: "nat \<Rightarrow> string" where
  "str_of_nat n =
     (if n < 10 then [char_of (48 + n)] else str_of_nat (n div 10) @ [char_of (48 + n mod 10)])"

definition str_of_int :: "int \<Rightarrow> string" where
  "str_of_int i = (if i < 0 then ''-'' @ str_of_nat (nat (- i)) else str_of_nat (nat i))"

definition save_files_db :: "world \<Rightarrow> 'v server \<Rightarrow> 'v server" where
  "save_files_db wd s =
     (case write_db wd of
        Written \<Rightarrow> s\<lparr>files_db_json := Some (ingested_files s)\<rparr>
      | OpenFailed \<Rightarrow> s
      | DumpFailed \<Rightarrow> s\<lparr>files_db_json := None\<rparr>)"

text \<open>
  get_file_hash reads the file in blocks until a read returns the empty string, and
  digests what it has read; any exception gives the empty hash. The loop is given the
  digest and the reads of the open file; it does not return on a file whose reads never
  come to the empty string.
\<close>

partial_function (option) hash_loop ::
  "(string \<Rightarrow> string) \<Rightarrow> (nat \<Rightarrow> py_error + string) \<Rightarrow> nat \<Rightarrow> string \<Rightarrow> string option" where
  "hash_loop hexdigest f_read k data =
     (case f_read k of
        Inl e \<Rightarrow> Some []
      | Inr chunk \<Rightarrow>
          if chunk = [] then Some (hexdigest data)
          else hash_loop hexdigest f_read (Suc k) (data @ chunk))"

declare hash_loop.simps [code]

definition get_file_hash :: "world \<Rightarrow> string \<Rightarrow> string option" where
  "get_file_hash wd path =
     (case file_open wd path of
        Some e \<Rightarrow> Some []
      | None \<Rightarrow> hash_loop (sha256_hexdigest wd) (file_read wd path) 0 [])"

fun read_text_loop :: "world \<Rightarrow> string \<Rightarrow> string list \<Rightarrow> string" where
  "read_text_loop wd path [] = ''[Error: Could not decode file '' @ path_str wd path @ '']''"
| "read_text_loop wd path (encoding # encodings) =
     (case read_text wd path encoding of
        Decoded content \<Rightarrow> content
      | UnicodeDecodeError \<Rightarrow> read_text_loop wd path encodings
      | ReadError e \<Rightarrow> ''[Error: Could not decode file '' @ path_str wd path @ '']'')"

definition read_text_file :: "world \<Rightarrow> string \<Rightarrow> string" where
  "read_text_file wd path = read_text_loop wd path [''utf-8'', ''utf-16'', ''latin-1'', ''cp1252'']"

definition text_suffixes :: "string list" where
  "text_suffixes =
     [''.txt'', ''.md'', ''.py'', ''.js'', ''.html'', ''.css'', ''.json'', ''.xml'', ''.yml'', ''.yaml'']"

definition extract_content :: "world \<Rightarrow> string \<Rightarrow> string \<Rightarrow> int \<Rightarrow> string" where
  "extract_content wd path ftype fsize =
     (if lower (path_suffix wd path) = ''.pdf''
      then (case pdf_pages wd path of
              Inl e \<Rightarrow> ''[Error reading PDF: '' @ str_of_error e @ '']''
            | Inr pages \<Rightarrow>
                py_join ''\<newline>'' (map (\<lambda>page. case page of None \<Rightarrow> [] | Some t \<Rightarrow> t) pages))
      else if ftype \<noteq> [] \<and> startswith ftype ''text/'' then read_text_file wd path
      else if lower (path_suffix wd path) \<in> set text_suffixes then read_text_file wd path
      else ''[Binary file: '' @ path_name wd path @ '', size: '' @ str_of_int fsize @ '' bytes]'')"

text \<open>
  The body of the \<open>try\<close> of ingest_file. The outer option is \<open>None\<close> when get_file_hash
  or chunk_text does not return; \<open>Inl e\<close> is an exception raised inside the \<open>try\<close>, with
  the server as mutated up to that point.
\<close>

definition ingest_file_try ::
  "'v gateways \<Rightarrow> world \<Rightarrow> 'v server \<Rightarrow> string \<Rightarrow> (string \<times> string) list option
     \<Rightarrow> ((py_error + (string \<times> pyval) list) \<times> 'v server) option" where
  "ingest_file_try g wd s file_path metadata =
     (case path_exists wd file_path of
        Inl e \<Rightarrow> Some (Inl e, s)
      | Inr False \<Rightarrow> Some (Inr [(''error'', PyStr (''File not found: '' @ file_path))], s)
      | Inr True \<Rightarrow>
          (case get_file_hash wd file_path of
             None \<Rightarrow> None
           | Some file_hash \<Rightarrow>
             (case stat_size wd file_path of
                Inl e \<Rightarrow> Some (Inl e, s)
              | Inr file_size \<Rightarrow>
                  (let ftype = (case guess_type wd file_path of
                                  None \<Rightarrow> ''unknown''
                                | Some t \<Rightarrow> if t = [] then ''unknown'' else t)
                   in if file_hash \<in> fst ` set (ingested_files s)
                      then Some (Inr [(''status'', PyStr ''already_exists''),
                                      (''file_id'', PyStr file_hash),
                                      (''message'', PyStr (''File already ingested: ''
                                                          @ path_name wd file_path))], s)
                      else
                        (let content = extract_content wd file_path ftype file_size;
                             indexed =
                               (if content \<noteq> [] \<and> \<not> startswith content ''[Binary file''
                                   \<and> \<not> startswith content ''[Error''
                                then (case chunk_text content 512 64 (Some file_hash)
                                             (Some (path_name wd file_path)) (Some ftype) of
                                        None \<Rightarrow> None
                                      | Some chunks \<Rightarrow>
                                          (case add_documents g (vector_index s) (map c_text chunks) of
                                             (Inl e, vi) \<Rightarrow> Some (Inl e, s\<lparr>vector_index := vi\<rparr>)
                                           | (Inr u, vi) \<Rightarrow>
                                               Some (Inr (),
                                                 s\<lparr>vector_index := vi,
                                                    chunk_metadata :=
                                                      Some ((case chunk_metadata s of
                                                               None \<Rightarrow> [] | Some cm \<Rightarrow> cm) @ chunks)\<rparr>)))
                                else Some (Inr (), s))
                         in case indexed of
                              None \<Rightarrow> None
                            | Some (Inl e, s1) \<Rightarrow> Some (Inl e, s1)
                            | Some (Inr u, s1) \<Rightarrow>
                                (let file_info =
                                       \<lparr>fi_id = file_hash, fi_name = path_name wd file_path,
                                        fi_path = path_absolute wd file_path, fi_size = file_size,
                                        fi_type = ftype, fi_content = content,
                                        fi_ingested_at = now_isoformat wd,
                                        fi_metadata = (case metadata of None \<Rightarrow> [] | Some m \<Rightarrow> m)\<rparr>;
                                     s2 = save_files_db wd
                                            (s1\<lparr>ingested_files :=
                                                   dict_set (ingested_files s1) file_hash file_info\<rparr>)
                                 in Some (Inr [(''status'', PyStr ''success''),
                                               (''file_id'', PyStr file_hash),
                                               (''name'', PyStr (path_name wd file_path)),
                                               (''size'', PyInt file_size),
                                               (''type'', PyStr ftype)], s2)))))))"

text \<open>ingest_file: the \<open>except Exception\<close> turns an exception into an error result.\<close>

definition ingest_file ::
  "'v gateways \<Rightarrow> world \<Rightarrow> 'v server \<Rightarrow> string \<Rightarrow> (string \<times> string) list option
     \<Rightarrow> ((string \<times> pyval) list \<times> 'v server) option" where
  "ingest_file g wd s file_path metadata =
     (case ingest_file_try g wd s file_path metadata of
        None \<Rightarrow> None
      | Some (Inl e, s1) \<Rightarrow>
          Some ([(''error'', PyStr (''Error ingesting file: '' @ str_of_error e))], s1)
      | Some (Inr result, s1) \<Rightarrow> Some (result, s1))"

definition get_file :: "'v server \<Rightarrow> string \<Rightarrow> file_info option" where
  "get_file s file_id = map_of (ingested_files s) file_id"

record file_summary =
  fs_id :: string
  fs_name :: string
  fs_size :: int
  fs_type :: string
  fs_ingested_at :: string

definition list_files :: "'v server \<Rightarrow> file_summary list" where
  "list_files s =
     map (\<lambda>(k, f). \<lparr>fs_id = fi_id f, fs_name = fi_name f, fs_size = fi_size f,
                     fs_type = fi_type f, fs_ingested_at = fi_ingested_at f\<rparr>)
         (ingested_files s)"

section \<open>The chat application (app.py)\<close>

text \<open>
  The module-level state: the server, the wrapper, the set \<open>ingested_files\<close> of the ids
  already given to the wrapper, and the chat history.
\<close>

record 'v app =
  mcp_server :: "'v server"
  mcp :: "'v wrapper"
  known_ids :: "string set"
  chat_history :: "(string \<times> string) list"

text \<open>\<open>mcp_server.get_file(id)["content"]\<close>: an unknown id gives the error dict, which has no content.\<close>

definition file_content :: "'v server \<Rightarrow> string \<Rightarrow> py_error + string" where
  "file_content s file_id =
     (case get_file s file_id of None \<Rightarrow> Inl (KeyError ''content'') | Some f \<Rightarrow> Inr (fi_content f))"

text \<open>\<open>build_index\<close>, run at startup.\<close>

definition build_index :: "'v gateways \<Rightarrow> 'v app \<Rightarrow> (py_error + unit) \<times> 'v app" where
  "build_index g a =
     (let files = list_files (mcp_server a)
      in case collect (map (\<lambda>f. file_content (mcp_server a) (fs_id f)) files) of
           Inl e \<Rightarrow> (Inl e, a)
         | Inr documents \<Rightarrow>
             (let a1 = a\<lparr>known_ids := set (map fs_id files)\<rparr>
              in if documents \<noteq> []
                 then (case ingest_documents g (mcp a1) documents True of
                         (r, w) \<Rightarrow> (r, a1\<lparr>mcp := w\<rparr>))
                 else (Inr (), a1)))"

text \<open>
  The first part of \<open>send_message\<close>: the documents of the files whose id is not yet known
  are ingested with \<open>refresh=False\<close>, and the known ids are replaced by the current ones
  when that call has returned.
\<close>

definition new_documents :: "'v app \<Rightarrow> py_error + string list" where
  "new_documents a =
     (let files = list_files (mcp_server a);
          new_files = set (map fs_id files) - known_ids a
      in collect (map (\<lambda>f. file_content (mcp_server a) (fs_id f))
                      (filter (\<lambda>f. fs_id f \<in> new_files) files)))"

definition sync_new_documents :: "'v gateways \<Rightarrow> 'v app \<Rightarrow> (py_error + unit) \<times> 'v app" where
  "sync_new_documents g a =
     (let files = list_files (mcp_server a);
          current_file_ids = set (map fs_id files);
          new_files = current_file_ids - known_ids a
      in if new_files \<noteq> {}
         then (case new_documents a of
                 Inl e \<Rightarrow> (Inl e, a)
               | Inr new_docs \<Rightarrow>
                   (case ingest_documents g (mcp a) new_docs False of
                      (Inl e, w) \<Rightarrow> (Inl e, a\<lparr>mcp := w\<rparr>)
                    | (Inr u, w) \<Rightarrow> (Inr (), a\<lparr>mcp := w, known_ids := current_file_ids\<rparr>)))
         else (Inr (), a))"

definition send_message :: "'v gateways \<Rightarrow> 'v app \<Rightarrow> string \<Rightarrow> (py_error + string) \<times> 'v app" where
  "send_message g a user_input =
     (case sync_new_documents g a of
        (Inl e, a1) \<Rightarrow> (Inl e, a1)
      | (Inr u, a1) \<Rightarrow>
          (case query g (mcp a1) user_input 0.7 0.5 5 of
             (Inl e, w) \<Rightarrow> (Inl e, a1\<lparr>mcp := w\<rparr>)
           | (Inr response, w) \<Rightarrow>
               (Inr response,
                a1\<lparr>mcp := w, chat_history := chat_history a1 @ [(user_input, response)]\<rparr>)))"

section \<open>A small instance of the collaborators\<close>

text \<open>
  For the closed examples: embeddings with one coordinate (\<open>- 1\<close> for the text \<open>no\<close>,
  \<open>1\<close> for every other text), already of length one; an inner-product and a squared
  distance search that score the first \<open>top_k\<close> stored vectors in index order, which is
  the exact answer when the index holds one vector; a generation model that answers
  \<open>echo: \<close> followed by the prompt.
\<close>

definition toy_gateways :: "real gateways" where
  "toy_gateways =
     \<lparr>embed = (\<lambda>s. if s = ''no'' then - 1 else 1),
      encode_error = (\<lambda>texts. None),
      normalize_L2 = sgn,
      search_ip = (\<lambda>vs q k. (map (\<lambda>v. v * hd q) (take (nat k) vs),
                              map int [0..<min (nat k) (length vs)])),
      search_l2 = (\<lambda>vs q k. (map (\<lambda>v. (v - hd q) * (v - hd q)) (take (nat k) vs),
                              map int [0..<min (nat k) (length vs)])),
      generate = (\<lambda>model prompt. Inr (''echo: '' @ prompt))\<rparr>"

text \<open>The same collaborators with the generation model out of service.\<close>

definition generator_down :: "real gateways" where
  "generator_down =
     toy_gateways\<lparr>generate := (\<lambda>model prompt. Inl (GatewayError ''ollama unavailable''))\<rparr>"

text \<open>The embedding model failing on every batch that holds the text \<open>bad\<close>.\<close>

definition flaky_embedder :: "real gateways" where
  "flaky_embedder =
     toy_gateways\<lparr>encode_error :=
       (\<lambda>texts. if ''bad'' \<in> set texts then Some (GatewayError ''embedding model unavailable'')
                  else None)\<rparr>"

text \<open>
  Collaborators whose embeddings are unit vectors of the plane, so that inner products
  other than 1 and \<open>- 1\<close> occur: \<open>yes\<close> and \<open>no\<close> are opposite, \<open>maybe\<close> has inner
  product 0.6 with \<open>yes\<close>, every other text is orthogonal to \<open>yes\<close>. Normalising a unit
  vector leaves it as it is.
\<close>

definition plane_gateways :: "(real \<times> real) gateways" where
  "plane_gateways =
     \<lparr>embed = (\<lambda>s. if s = ''yes'' then (1, 0) else if s = ''no'' then (- 1, 0)
                     else if s = ''maybe'' then (0.6, 0.8) else (0, 1)),
      encode_error = (\<lambda>texts. None),
      normalize_L2 = (\<lambda>v. v),
      search_ip = (\<lambda>vs q k. (map (\<lambda>v. fst v * fst (hd q) + snd v * snd (hd q)) (take (nat k) vs),
                              map int [0..<min (nat k) (length vs)])),
      search_l2 = (\<lambda>vs q k. (map (\<lambda>v. (fst v - fst (hd q)) * (fst v - fst (hd q))
                                        + (snd v - snd (hd q)) * (snd v - snd (hd q)))
                                   (take (nat k) vs),
                              map int [0..<min (nat k) (length vs)])),
      generate = (\<lambda>model prompt. Inr (''echo: '' @ prompt))\<rparr>"


text \<open>The wrapper after \<open>yes\<close>, and after \<open>yes\<close> twice, has been ingested; a VectorIndex holding \<open>yes\<close>.\<close>

definition plane_wrapper :: "(real \<times> real) wrapper" where
  "plane_wrapper =
     \<lparr>w_model_name = ''llama'', w_chunk_size = 300, w_index = Some [(1, 0)],
      w_doc_chunks = [''yes''], w_embedder_calls = [[''yes'']]\<rparr>"

definition plane_wrapper_twice :: "(real \<times> real) wrapper" where
  "plane_wrapper_twice =
     \<lparr>w_model_name = ''llama'', w_chunk_size = 300, w_index = Some [(1, 0), (1, 0)],
      w_doc_chunks = [''yes'', ''yes''], w_embedder_calls = [[''yes''], [''yes'']]\<rparr>"


text \<open>
  A file system with readable text files, one missing path, one unreadable file, and the
  device \<open>/dev/zero\<close>, which exists and whose reads never come to an end.
\<close>

definition toy_world :: world where
  "toy_world =
     \<lparr>path_exists = (\<lambda>p. Inr (p \<noteq> ''missing.txt'')),
      file_open = (\<lambda>p. if p = ''locked.txt'' then Some (OSError ''Permission denied'') else None),
      file_read = (\<lambda>p k. if p = ''/dev/zero'' then Inr [CHR 0x00]
                           else if k = 0 then Inr ''hello world'' else Inr []),
      sha256_hexdigest = (\<lambda>bytes. ''sha:'' @ bytes),
      stat_size = (\<lambda>p. Inr 11),
      guess_type = (\<lambda>p. Some ''text/plain''),
      path_name = (\<lambda>p. p),
      path_suffix = (\<lambda>p. ''.txt''),
      path_absolute = (\<lambda>p. ''/data/'' @ p),
      path_str = (\<lambda>p. p),
      pdf_pages = (\<lambda>p. Inr []),
      read_text = (\<lambda>p encoding. Decoded ''hello world''),
      now_isoformat = ''2024-01-01T00:00:00'',
      write_db = Written\<rparr>"




section \<open>The grounding modes of the specification\<close>

text \<open>
  The source has no name for the three branches of query. The modes, their literal prompt
  templates and the threshold classification are written here from the specification's
  words, to be compared with what \<open>query\<close> does.
\<close>

datatype grounding_mode = STRICT_GROUNDED | HYBRID_GROUNDED | UNGROUNDED

fun prompt_template :: "grounding_mode \<Rightarrow> string \<Rightarrow> string \<Rightarrow> string" where
  "prompt_template STRICT_GROUNDED joined_chunks question =
     ''Context:\<newline>'' @ joined_chunks @ ''\<newline>\<newline>Question:\<newline>'' @ question @ ''\<newline>Answer:''"
| "prompt_template HYBRID_GROUNDED joined_chunks question =
     ''Use the following context if relevant, but also apply your own reasoning:\<newline>''
       @ joined_chunks @ ''\<newline>\<newline>Question:\<newline>'' @ question @ ''\<newline>Answer:''"
| "prompt_template UNGROUNDED joined_chunks question =
     ''Question:\<newline>'' @ question @ ''\<newline>Answer:''"

text \<open>
  The score comparator of the specification: whether a score meets a threshold when higher
  scores mean more similar, or when lower scores do.
\<close>

datatype comparator = HigherIsBetter | LowerIsBetter

fun meets :: "comparator \<Rightarrow> real \<Rightarrow> real \<Rightarrow> bool" where
  "meets HigherIsBetter score threshold = (score \<ge> threshold)"
| "meets LowerIsBetter score threshold = (score \<le> threshold)"

text \<open>Classification by the best score; \<open>None\<close> when nothing was retrieved.\<close>

definition classify :: "comparator \<Rightarrow> real option \<Rightarrow> real \<Rightarrow> real \<Rightarrow> grounding_mode" where
  "classify cmp best strong_threshold weak_threshold =
     (case best of
        None \<Rightarrow> UNGROUNDED
      | Some s \<Rightarrow>
          if meets cmp s strong_threshold then STRICT_GROUNDED
          else if meets cmp s weak_threshold then HYBRID_GROUNDED
          else UNGROUNDED)"

text \<open>
  The reading of "windows of windowSize tokens, the final window possibly shorter" under
  which only the last window may hold fewer than \<open>window_size\<close> tokens.
\<close>

definition claimed_only_final_short :: "int \<Rightarrow> chunk_info list \<Rightarrow> bool" where
  "claimed_only_final_short window_size chunks =
     list_all (\<lambda>c. int (length (py_split (c_text c))) = window_size) (butlast chunks)"

section \<open>Chunking: windows and termination\<close>

lemma split_acc_nonempty: "w \<in> set (split_acc cur s) \<Longrightarrow> w \<noteq> []"
  by (induction s arbitrary: cur) (auto split: if_splits)

lemma py_split_nonempty: "w \<in> set (py_split s) \<Longrightarrow> w \<noteq> []"
  by (simp add: py_split_def split_acc_nonempty)

lemma py_slice_nat:
  "0 \<le> n \<Longrightarrow> py_slice xs (int i) (int i + n) = take (nat n) (drop i xs)"
  by (cases "i \<le> length xs"; cases "nat (int i + n) \<le> length xs")
     (auto simp: py_slice_def slice_bound_def Let_def min_def nat_add_distrib)

lemma window_count_step:
  assumes s: "0 < s" and i: "i < n"
  shows "window_count (n - i) s = Suc (window_count (n - (i + s)) s)"
proof (cases "n - i \<le> s")
  case True
  then have a: "n - (i + s) = 0" by simp
  from True i s have "(n - i + s - 1) div s = 1"
    by (intro div_nat_eqI) auto
  with a s show ?thesis by (simp add: window_count_def)
next
  case False
  then have "n - i + s - 1 = (n - (i + s) + s - 1) + s" using s by simp
  then have "(n - i + s - 1) div s = Suc ((n - (i + s) + s - 1) div s)"
    using s by (metis div_add_self2 Suc_eq_plus1 less_numeral_extra(3))
  then show ?thesis by (simp add: window_count_def)
qed

lemma window_length: "length (window words wsize stride k) = min wsize (length words - k * stride)"
  by (simp add: window_def min.commute)

text \<open>The loop started at token \<open>i\<close> appends one window per stride until the tokens run out.\<close>

lemma chunk_loop_from:
  assumes "1 \<le> cs" "ov < cs"
  shows "chunk_loop words cs ov fid fname ftype (int i) acc =
           Some (acc @ map (\<lambda>k. \<lparr>c_text = py_join '' '' (take (nat cs) (drop (i + k * nat (cs - ov)) words)),
                                   c_file_id = fid, c_file_name = fname, c_file_type = ftype\<rparr>)
                         [0..<window_count (length words - i) (nat (cs - ov))])"
proof (induction "length words - i" arbitrary: i acc rule: less_induct)
  case less
  let ?s = "nat (cs - ov)"
  let ?mk = "\<lambda>j. \<lparr>c_text = py_join '' '' (take (nat cs) (drop j words)),
                   c_file_id = fid, c_file_name = fname, c_file_type = ftype\<rparr>"
  have s: "0 < ?s" using assms by simp
  show ?case
  proof (cases "i < length words")
    case False
    then have "window_count (length words - i) ?s = 0"
      using s by (simp add: window_count_def)
    with False show ?thesis by (subst chunk_loop.simps) simp
  next
    case True
    have step: "int i + (cs - ov) = int (i + ?s)" using assms by simp
    have dec: "length words - (i + ?s) < length words - i" using True s by simp
    have cnt: "window_count (length words - i) ?s = Suc (window_count (length words - (i + ?s)) ?s)"
      by (rule window_count_step[OF s True])
    have sl: "py_slice words (int i) (int i + cs) = take (nat cs) (drop i words)"
      using assms by (simp add: py_slice_nat)
    have shift: "map (\<lambda>k. ?mk (i + k * ?s)) [0..<Suc m]
        = ?mk i # map (\<lambda>k. ?mk (i + ?s + k * ?s)) [0..<m]" for m
    proof -
      have "[0..<Suc m] = 0 # map Suc [0..<m]"
        by (simp add: upt_conv_Cons map_Suc_upt del: upt_Suc)
      then show ?thesis by (simp add: o_def ac_simps del: upt_Suc)
    qed
    have c: "int i < int (length words)" using True by simp
    show ?thesis
      apply (subst chunk_loop.simps)
      apply (simp only: c if_True step sl less.hyps[OF dec] cnt shift)
      apply simp
      done
  qed
qed

text \<open>With a stride of at least one token the loop returns, whatever the window size.\<close>

lemma chunk_loop_terminates:
  assumes "1 \<le> cs - ov"
  shows "\<exists>ys. chunk_loop words cs ov fid fname ftype i acc = Some ys"
proof (induction "nat (int (length words) - i)" arbitrary: i acc rule: less_induct)
  case less
  show ?case
  proof (cases "i < int (length words)")
    case False
    then show ?thesis by (subst chunk_loop.simps) simp
  next
    case True
    have dec: "nat (int (length words) - (i + (cs - ov))) < nat (int (length words) - i)"
      using True assms by linarith
    from less.hyps[OF dec] True show ?thesis
      by (subst chunk_loop.simps) simp
  qed
qed

text \<open>
  With a stride of zero or less the position never passes the end of the token list, so
  the loop has no result: fixed-point induction over the loop's defining equation.
\<close>

lemma chunk_loop_diverges_aux:
  assumes "chunk_loop words cs ov fid fname ftype i acc = Some ys"
  shows "\<not> (cs - ov \<le> 0 \<and> i < int (length words))"
proof (rule chunk_loop.raw_induct
    [where P = "\<lambda>words cs ov fid fname ftype i acc ys. \<not> (cs - ov \<le> 0 \<and> i < int (length words))",
     OF _ assms])
  fix loop :: "string list \<Rightarrow> int \<Rightarrow> int \<Rightarrow> string option \<Rightarrow> string option \<Rightarrow> string option
     \<Rightarrow> int \<Rightarrow> chunk_info list \<Rightarrow> chunk_info list option"
  fix words cs ov fid fname ftype i acc ys
  assume IH: "\<And>words cs ov fid fname ftype i acc ys.
      loop words cs ov fid fname ftype i acc = Some ys \<Longrightarrow> \<not> (cs - ov \<le> 0 \<and> i < int (length words))"
  assume unfold: "(if i < int (length words)
      then loop words cs ov fid fname ftype (i + (cs - ov))
             (acc @ [\<lparr>c_text = py_join '' '' (py_slice words i (i + cs)),
                         c_file_id = fid, c_file_name = fname, c_file_type = ftype\<rparr>])
      else Some acc) = Some ys"
  show "\<not> (cs - ov \<le> 0 \<and> i < int (length words))"
  proof
    assume a: "cs - ov \<le> 0 \<and> i < int (length words)"
    with unfold have "loop words cs ov fid fname ftype (i + (cs - ov))
        (acc @ [\<lparr>c_text = py_join '' '' (py_slice words i (i + cs)),
                 c_file_id = fid, c_file_name = fname, c_file_type = ftype\<rparr>]) = Some ys"
      by simp
    from IH[OF this] a show False by simp
  qed
qed

lemma chunk_loop_diverges:
  "cs \<le> ov \<Longrightarrow> i < int (length words) \<Longrightarrow> chunk_loop words cs ov fid fname ftype i acc = None"
  using chunk_loop_diverges_aux[of words cs ov fid fname ftype i acc]
  by (cases "chunk_loop words cs ov fid fname ftype i acc") auto

text \<open>
  C4, as stated: only the final window may be shorter than the window size. With
  \<open>chunk_size = 3\<close> and \<open>overlap = 2\<close> the five tokens \<open>a b c d e\<close> give the windows
  \<open>a b c\<close>, \<open>b c d\<close>, \<open>c d e\<close>, \<open>d e\<close>, \<open>e\<close>: the fourth window is not the final one
  and has two tokens.
\<close>

theorem chunk_text_only_final_short_counterexample:
  "map_option (map c_text) (chunk_text ''a b c d e'' 3 2 None None None)
     = Some [''a b c'', ''b c d'', ''c d e'', ''d e'', ''e'']
   \<and> map_option (claimed_only_final_short 3) (chunk_text ''a b c d e'' 3 2 None None None)
     = Some False"
  by code_simp

text \<open>
  C4, amended: for \<open>chunk_size \<ge> 1\<close> and \<open>overlap < chunk_size\<close>, chunk_text splits the text
  on whitespace and returns, in order, one chunk per window start \<open>0, stride, 2 * stride, ...\<close>
  below the number of tokens, where \<open>stride = chunk_size - overlap\<close>; the \<open>k\<close>-th chunk is
  the tokens \<open>k * stride ..< k * stride + chunk_size\<close> in their original order, joined by
  single spaces, cut short where the token list ends (so every window that runs past the
  end is shorter, which with a positive overlap can be several trailing windows), and each
  chunk carries the file id, name and type given. On \<open>a b c d e\<close> with window 2 the chunks
  are \<open>a b\<close>, \<open>c d\<close>, \<open>e\<close> for overlap 0 and step by one token for overlap 1.
\<close>

theorem chunk_text_windows:
  assumes "1 \<le> chunk_size" and "overlap < chunk_size"
  shows "chunk_text txt chunk_size overlap fid fname ftype =
           Some (map (\<lambda>k. \<lparr>c_text = py_join '' ''
                                (window (py_split txt) (nat chunk_size) (nat (chunk_size - overlap)) k),
                            c_file_id = fid, c_file_name = fname, c_file_type = ftype\<rparr>)
                   [0..<window_count (length (py_split txt)) (nat (chunk_size - overlap))])
         \<and> map_option (map c_text) (chunk_text ''a b c d e'' 2 0 None None None)
             = Some [''a b'', ''c d'', ''e'']
         \<and> map_option (map c_text) (chunk_text ''a b c d e'' 2 1 None None None)
             = Some [''a b'', ''b c'', ''c d'', ''d e'', ''e'']"
proof -
  have general: "chunk_text txt chunk_size overlap fid fname ftype =
           Some (map (\<lambda>k. \<lparr>c_text = py_join '' ''
                                (window (py_split txt) (nat chunk_size) (nat (chunk_size - overlap)) k),
                            c_file_id = fid, c_file_name = fname, c_file_type = ftype\<rparr>)
                   [0..<window_count (length (py_split txt)) (nat (chunk_size - overlap))])"
    using chunk_loop_from[OF assms, of "py_split txt" fid fname ftype 0 "[]"]
    by (simp add: chunk_text_def window_def)
  have ex0: "map_option (map c_text) (chunk_text ''a b c d e'' 2 0 None None None)
             = Some [''a b'', ''c d'', ''e'']"
    by code_simp
  have ex1: "map_option (map c_text) (chunk_text ''a b c d e'' 2 1 None None None)
             = Some [''a b'', ''b c'', ''c d'', ''d e'', ''e'']"
    by code_simp
  from general ex0 ex1 show ?thesis by simp
qed

theorem chunk_text_windows_witness:
  "(1::int) \<le> 3 \<and> (1::int) < 3
   \<and> chunk_text ''one two  three four'' 3 1 (Some ''h'') (Some ''f.txt'') (Some ''text/plain'') =
       Some [\<lparr>c_text = ''one two three'', c_file_id = Some ''h'', c_file_name = Some ''f.txt'',
               c_file_type = Some ''text/plain''\<rparr>,
             \<lparr>c_text = ''three four'', c_file_id = Some ''h'', c_file_name = Some ''f.txt'',
               c_file_type = Some ''text/plain''\<rparr>]"
proof -
  have h1: "(1::int) \<le> 3" and h2: "(1::int) < 3" by simp_all
  have rhs: "map (\<lambda>k. \<lparr>c_text = py_join '' ''
                        (window (py_split ''one two  three four'') (nat 3) (nat (3 - 1)) k),
                      c_file_id = Some ''h'', c_file_name = Some ''f.txt'',
                      c_file_type = Some ''text/plain''\<rparr>)
               [0..<window_count (length (py_split ''one two  three four'')) (nat (3 - 1))]
        = [\<lparr>c_text = ''one two three'', c_file_id = Some ''h'', c_file_name = Some ''f.txt'',
               c_file_type = Some ''text/plain''\<rparr>,
             \<lparr>c_text = ''three four'', c_file_id = Some ''h'', c_file_name = Some ''f.txt'',
               c_file_type = Some ''text/plain''\<rparr>]"
    by code_simp
  have "chunk_text ''one two  three four'' 3 1 (Some ''h'') (Some ''f.txt'') (Some ''text/plain'') =
      Some (map (\<lambda>k. \<lparr>c_text = py_join '' ''
                        (window (py_split ''one two  three four'') (nat 3) (nat (3 - 1)) k),
                      c_file_id = Some ''h'', c_file_name = Some ''f.txt'',
                      c_file_type = Some ''text/plain''\<rparr>)
               [0..<window_count (length (py_split ''one two  three four'')) (nat (3 - 1))])"
    by (rule chunk_text_windows[OF h1 h2, THEN conjunct1])
  then show ?thesis by (simp only: rhs h1 h2 simp_thms)
qed

text \<open>
  C5, as stated: chunking terminates for every configuration, overlap \<open>\<ge>\<close> window size
  included. The loop has no guard on the stride: with \<open>chunk_size = 1\<close> and \<open>overlap = 1\<close>
  the position stays at 0 and the one-token text \<open>a\<close> is chunked forever.
\<close>

theorem chunk_text_nontermination_counterexample:
  "chunk_text ''a'' 1 1 None None None = None"
proof -
  have "py_split ''a'' = [''a'']" by code_simp
  then show ?thesis by (simp add: chunk_text_def chunk_loop_diverges)
qed

text \<open>
  C5, amended: chunk_text neither rejects nor clamps an overlap that reaches the window
  size. It returns exactly when the stride \<open>chunk_size - overlap\<close> is at least 1 or the text
  has no token; with \<open>overlap \<ge> chunk_size\<close> and at least one token it never returns.
\<close>

theorem chunk_text_terminates_iff:
  "(\<exists>chunks. chunk_text txt chunk_size overlap fid fname ftype = Some chunks)
     \<longleftrightarrow> (overlap < chunk_size \<or> py_split txt = [])"
proof (cases "overlap < chunk_size")
  case True
  then have "1 \<le> chunk_size - overlap" by simp
  from chunk_loop_terminates[OF this] True show ?thesis by (simp add: chunk_text_def)
next
  case False
  show ?thesis
  proof (cases "py_split txt = []")
    case True
    then show ?thesis by (simp add: chunk_text_def chunk_loop.simps)
  next
    case nonempty: False
    with False have "chunk_text txt chunk_size overlap fid fname ftype = None"
      by (simp add: chunk_text_def chunk_loop_diverges)
    with False nonempty show ?thesis by simp
  qed
qed

theorem chunk_text_terminates_iff_witness:
  "(64::int) < 512 \<and> (\<exists>chunks. chunk_text ''a b c'' 512 64 None None None = Some chunks)"
  using chunk_text_terminates_iff[of "''a b c''" 512 64 None None None] by simp

section \<open>MCPWrapperOllama: chunks, index alignment and ingestion\<close>

lemma py_join_nonempty: "xs \<noteq> [] \<Longrightarrow> \<forall>x\<in>set xs. x \<noteq> [] \<Longrightarrow> py_join sep xs \<noteq> []"
  by (induction sep xs rule: py_join.induct) auto

lemma window_count_start: 
  assumes "0 < s" "k < window_count n s" shows "k * s < n"
proof -
  from assms(2) have "Suc k \<le> (n + s - 1) div s" by (simp add: window_count_def)
  then have "Suc k * s \<le> n + s - 1"
    using assms(1) by (simp add: less_eq_div_iff_mult_less_eq)
  then show ?thesis using assms(1) by (cases n) auto
qed

lemma py_index_mem: "py_index xs i = Inr x \<Longrightarrow> x \<in> set xs"
  by (auto simp: py_index_def split: if_splits)


lemma collect_index_subset:
  "collect (map (py_index xs) is) = Inr rs \<Longrightarrow> set rs \<subseteq> set xs"
proof (induction "is" arbitrary: rs)
  case Nil then show ?case by simp
next
  case (Cons i "is")
  then show ?case
    by (cases "py_index xs i") (auto split: sum.splits dest: py_index_mem)
qed

lemma ollama_chunk_text_nonempty:
  assumes "ollama_chunk_text w txt = Inr chunks" "c \<in> set chunks" shows "c \<noteq> []"
proof -
  let ?words = "py_split txt" and ?cs = "w_chunk_size w"
  show ?thesis
  proof (cases "?cs > 0")
    case False
    with assms show ?thesis
      by (auto simp: ollama_chunk_text_def py_range_def Let_def split: if_splits)
  next
    case True
    with assms(1) have "chunks = map (\<lambda>i. py_join '' '' (py_slice ?words (int i) (int i + ?cs)))
          (map (\<lambda>k. k * nat ?cs) [0..<window_count (length ?words) (nat ?cs)])"
      by (simp add: ollama_chunk_text_def py_range_def Let_def)
    with assms(2) obtain k where k: "k < window_count (length ?words) (nat ?cs)"
      and c: "c = py_join '' '' (py_slice ?words (int (k * nat ?cs)) (int (k * nat ?cs) + ?cs))"
      by auto
    from True k have lt: "k * nat ?cs < length ?words" by (intro window_count_start) auto
    have sl: "py_slice ?words (int (k * nat ?cs)) (int (k * nat ?cs) + ?cs) = take (nat ?cs) (drop (k * nat ?cs) ?words)"
      using True by (intro py_slice_nat) auto
    have ne: "take (nat ?cs) (drop (k * nat ?cs) ?words) \<noteq> []" using lt True by simp
    have "\<forall>x\<in>set (take (nat ?cs) (drop (k * nat ?cs) ?words)). x \<noteq> []"
      by (auto dest!: in_set_takeD in_set_dropD py_split_nonempty)
    with ne show ?thesis unfolding c sl by (rule py_join_nonempty)
  qed
qed

lemma ollama_chunk_text_upd:
  "ollama_chunk_text (w\<lparr>w_doc_chunks := a, w_embedder_calls := b\<rparr>) doc = ollama_chunk_text w doc"
  by (simp add: ollama_chunk_text_def Let_def split: sum.splits)

lemma chunks_of_upd:
  "chunks_of (w\<lparr>w_doc_chunks := a, w_embedder_calls := b\<rparr>) doc = chunks_of w doc"
  by (simp add: chunks_of_def ollama_chunk_text_upd)

lemma chunks_of_nonempty: "c \<in> set (chunks_of w doc) \<Longrightarrow> c \<noteq> []"
proof (cases "ollama_chunk_text w doc")
  case (Inl e) then show "c \<in> set (chunks_of w doc) \<Longrightarrow> c \<noteq> []" by (simp add: chunks_of_def)
next
  case (Inr chunks)
  then show "c \<in> set (chunks_of w doc) \<Longrightarrow> c \<noteq> []"
    using ollama_chunk_text_nonempty[OF Inr, of c] by (simp add: chunks_of_def)
qed

lemma ingest_loop_Cons_raise:
  "ollama_chunk_text w doc = Inl e \<Longrightarrow> ingest_loop g (doc # docs) w embs = (Inl e, w)"
  by simp

lemma ingest_loop_Cons_encode_raise:
  "ollama_chunk_text w doc = Inr chunks \<Longrightarrow> encode_error g chunks = Some e \<Longrightarrow>
   ingest_loop g (doc # docs) w embs =
     (Inl e, w\<lparr>w_doc_chunks := w_doc_chunks w @ chunks,
                w_embedder_calls := w_embedder_calls w @ [chunks]\<rparr>)"
  by (simp add: encode_def)

lemma ingest_loop_Cons_ok:
  "ollama_chunk_text w doc = Inr chunks \<Longrightarrow> encode_error g chunks = None \<Longrightarrow>
   ingest_loop g (doc # docs) w embs =
     ingest_loop g docs (w\<lparr>w_doc_chunks := w_doc_chunks w @ chunks,
                            w_embedder_calls := w_embedder_calls w @ [chunks]\<rparr>)
       (embs @ [map (\<lambda>c. normalize_L2 g (embed g c)) chunks])"
  by (simp add: encode_def o_def)

lemma ingest_loop_effect:
  "ingest_loop g docs w embs = (r, w') \<Longrightarrow>
     \<exists>m\<le>length docs.
        w_doc_chunks w' = w_doc_chunks w @ concat (map (chunks_of w) (take m docs))
      \<and> w_embedder_calls w' = w_embedder_calls w @ map (chunks_of w) (take m docs)
      \<and> w_index w' = w_index w \<and> w_chunk_size w' = w_chunk_size w
      \<and> w_model_name w' = w_model_name w
      \<and> (\<forall>embs'. r = Inr embs' \<longrightarrow>
            m = length docs
          \<and> embs' = embs @ map (\<lambda>d. map (\<lambda>c. normalize_L2 g (embed g c)) (chunks_of w d)) docs)"
proof (induction docs arbitrary: w embs)
  case Nil
  then show ?case by auto
next
  case (Cons doc docs)
  show ?case
  proof (cases "ollama_chunk_text w doc")
    case (Inl e)
    with Cons.prems have "r = Inl e" "w' = w" by (simp_all add: ingest_loop_Cons_raise del: ingest_loop.simps)
    then show ?thesis by (intro exI[of _ 0]) simp
  next
    case (Inr chunks)
    then have co: "chunks_of w doc = chunks" by (simp add: chunks_of_def)
    let ?w1 = "w\<lparr>w_doc_chunks := w_doc_chunks w @ chunks,
                  w_embedder_calls := w_embedder_calls w @ [chunks]\<rparr>"
    have cong: "chunks_of ?w1 = chunks_of w" by (rule ext) (rule chunks_of_upd)
    show ?thesis
    proof (cases "encode_error g chunks")
      case (Some e)
      with Cons.prems Inr have "r = Inl e" "w' = ?w1"
        by (simp_all add: ingest_loop_Cons_encode_raise del: ingest_loop.simps)
      then show ?thesis by (intro exI[of _ 1]) (simp add: co)
    next
      case None
      with Cons.prems Inr have
        rec: "ingest_loop g docs ?w1 (embs @ [map (\<lambda>c. normalize_L2 g (embed g c)) chunks]) = (r, w')"
        by (simp add: ingest_loop_Cons_ok del: ingest_loop.simps)
      from Cons.IH[OF rec] obtain m where m: "m \<le> length docs"
        "w_doc_chunks w' = w_doc_chunks ?w1 @ concat (map (chunks_of ?w1) (take m docs))"
        "w_embedder_calls w' = w_embedder_calls ?w1 @ map (chunks_of ?w1) (take m docs)"
        "w_index w' = w_index ?w1" "w_chunk_size w' = w_chunk_size ?w1"
        "w_model_name w' = w_model_name ?w1"
        "\<forall>embs'. r = Inr embs' \<longrightarrow> m = length docs
          \<and> embs' = (embs @ [map (\<lambda>c. normalize_L2 g (embed g c)) chunks])
               @ map (\<lambda>d. map (\<lambda>c. normalize_L2 g (embed g c)) (chunks_of ?w1 d)) docs"
        by blast
      show ?thesis
        using m by (intro exI[of _ "Suc m"]) (simp add: co cong)
    qed
  qed
qed

lemma chunks_of_cong:
  "w_chunk_size w1 = w_chunk_size w \<Longrightarrow> chunks_of w1 = chunks_of w"
  by (rule ext) (simp add: chunks_of_def ollama_chunk_text_def Let_def split: sum.splits)

lemma ingest_documents_effect:
  assumes "ingest_documents g w docs refresh = (r, w')"
  shows "\<exists>m\<le>length docs.
        w_doc_chunks w' = (if refresh then [] else w_doc_chunks w)
                            @ concat (map (chunks_of w) (take m docs))
      \<and> w_embedder_calls w' = w_embedder_calls w @ map (chunks_of w) (take m docs)
      \<and> w_chunk_size w' = w_chunk_size w \<and> w_model_name w' = w_model_name w
      \<and> (\<forall>u. r = Inr u \<longrightarrow> m = length docs
            \<and> index_vectors w' = (if refresh then [] else index_vectors w)
                 @ map (\<lambda>c. normalize_L2 g (embed g c)) (concat (map (chunks_of w) docs)))
      \<and> (\<forall>e. r = Inl e \<longrightarrow> index_vectors w' = (if refresh then [] else index_vectors w))"
proof -
  define w0 where "w0 = (if refresh
                then w\<lparr>w_doc_chunks := [],
                       w_index := (case w_index w of None \<Rightarrow> None | Some vs \<Rightarrow> Some [])\<rparr>
                else w)"
  have w0: "w_doc_chunks w0 = (if refresh then [] else w_doc_chunks w)"
    "index_vectors w0 = (if refresh then [] else index_vectors w)"
    "w_embedder_calls w0 = w_embedder_calls w" "w_chunk_size w0 = w_chunk_size w"
    "w_model_name w0 = w_model_name w"
    by (auto simp: w0_def index_vectors_def split: option.splits)
  have co: "chunks_of w0 = chunks_of w" by (rule chunks_of_cong) (simp add: w0)
  obtain r1 w1 where loop: "ingest_loop g docs w0 [] = (r1, w1)" by (cases "ingest_loop g docs w0 []")
  from ingest_loop_effect[OF loop] obtain m where m: "m \<le> length docs"
      "w_doc_chunks w1 = w_doc_chunks w0 @ concat (map (chunks_of w0) (take m docs))"
      "w_embedder_calls w1 = w_embedder_calls w0 @ map (chunks_of w0) (take m docs)"
      "w_index w1 = w_index w0" "w_chunk_size w1 = w_chunk_size w0"
      "w_model_name w1 = w_model_name w0"
      "\<forall>embs'. r1 = Inr embs' \<longrightarrow> m = length docs
          \<and> embs' = [] @ map (\<lambda>d. map (\<lambda>c. normalize_L2 g (embed g c)) (chunks_of w0 d)) docs"
    by blast
  have iv1: "index_vectors w1 = index_vectors w0" using m(4) by (simp add: index_vectors_def)
  show ?thesis
  proof (cases r1)
    case (Inl e)
    with assms loop have "r = Inl e" "w' = w1"
      by (simp_all add: ingest_documents_def w0_def[symmetric] Let_def)
    with m iv1 show ?thesis by (intro exI[of _ m]) (simp add: w0 co)
  next
    case (Inr embs)
    with m(7) have full: "m = length docs"
      and embs: "embs = map (\<lambda>d. map (\<lambda>c. normalize_L2 g (embed g c)) (chunks_of w d)) docs"
      by (simp_all add: co)
    have cc: "concat embs = map (\<lambda>c. normalize_L2 g (embed g c)) (concat (map (chunks_of w) docs))"
      by (simp add: embs map_concat o_def)
    show ?thesis
    proof (cases "embs = []")
      case True
      with assms loop Inr have "r = Inr ()" "w' = w1"
        by (simp_all add: ingest_documents_def w0_def[symmetric] Let_def)
      moreover from True embs have "docs = []" by simp
      ultimately show ?thesis using m iv1 by (intro exI[of _ m]) (simp add: w0 co)
    next
      case False
      with assms loop Inr have r: "r = Inr ()"
        and w': "w' = w1\<lparr>w_index := Some (index_vectors w1 @ concat embs)\<rparr>"
        by (simp_all add: ingest_documents_def w0_def[symmetric] Let_def index_vectors_def)
      have "index_vectors w' = index_vectors w0 @ concat embs"
        by (simp add: w' index_vectors_def iv1[unfolded index_vectors_def])
      with r w' m full cc show ?thesis by (intro exI[of _ m]) (simp add: w0 co)
    qed
  qed
qed

lemma aligned_init: "aligned g (wrapper_init name csize)"
  by (simp add: aligned_def wrapper_init_def index_vectors_def)

lemma ntotal_index_vectors: "ntotal w = length (index_vectors w)"
  by (simp add: ntotal_def index_vectors_def split: option.splits)

lemma aligned_ntotal: "aligned g w \<Longrightarrow> ntotal w = length (w_doc_chunks w)"
  by (simp add: ntotal_index_vectors aligned_def)

lemma ingest_documents_aligned:
  assumes "ingest_documents g w docs refresh = (Inr u, w')" and "refresh \<or> aligned g w"
  shows "aligned g w'"
proof -
  from ingest_documents_effect[OF assms(1)] obtain m where
    "w_doc_chunks w' = (if refresh then [] else w_doc_chunks w)
                            @ concat (map (chunks_of w) (take m docs))"
    "m = length docs"
    "index_vectors w' = (if refresh then [] else index_vectors w)
                 @ map (\<lambda>c. normalize_L2 g (embed g c)) (concat (map (chunks_of w) docs))"
    by blast
  with assms(2) show ?thesis by (auto simp: aligned_def)
qed

lemma run_ingests_aligned:
  "aligned g w \<Longrightarrow> run_ingests g w ops = Inr w' \<Longrightarrow> aligned g w'"
proof (induction ops arbitrary: w)
  case Nil
  then show ?case by simp
next
  case (Cons op ops)
  obtain docs refresh where op: "op = (docs, refresh)" by (cases op)
  obtain r w1 where step: "ingest_documents g w docs refresh = (r, w1)"
    by (cases "ingest_documents g w docs refresh")
  show ?case
  proof (cases r)
    case (Inl e)
    with Cons.prems(2) op step show ?thesis by simp
  next
    case (Inr u)
    with step Cons.prems(1) have "aligned g w1" by (auto intro: ingest_documents_aligned)
    moreover from Cons.prems(2) op step Inr have "run_ingests g w1 ops = Inr w'" by simp
    ultimately show ?thesis by (rule Cons.IH)
  qed
qed

lemma add_documents_aligned:
  "vi_aligned g vi \<Longrightarrow> vi_aligned g (snd (add_documents g vi docs))"
  by (auto simp: add_documents_def vi_aligned_def vi_vectors_def encode_def split: option.splits)

lemma run_adds_aligned: "vi_aligned g vi \<Longrightarrow> vi_aligned g (run_adds g vi batches)"
  by (induction batches arbitrary: vi) (auto intro: add_documents_aligned)

lemma vi_aligned_init: "vi_aligned g vector_index_init"
  by (simp add: vi_aligned_def vi_vectors_def vector_index_init_def)

lemma ingest_documents_chunks_nonempty:
  assumes "ingest_documents g w docs refresh = (r, w')" and "\<forall>c\<in>set (w_doc_chunks w). c \<noteq> []"
  shows "\<forall>c\<in>set (w_doc_chunks w'). c \<noteq> []"
proof -
  from ingest_documents_effect[OF assms(1)] obtain m where
    "w_doc_chunks w' = (if refresh then [] else w_doc_chunks w)
                            @ concat (map (chunks_of w) (take m docs))"
    by blast
  with assms(2) show ?thesis by (auto dest: chunks_of_nonempty)
qed

lemma sp1: "py_split ''hello world'' = [''hello'', ''world'']" by code_simp

lemma flaky_raise:
  "ingest_documents flaky_embedder (wrapper_init ''llama'' 300) [''bad''] False
     = (Inl (GatewayError ''embedding model unavailable''),
        \<lparr>w_model_name = ''llama'', w_chunk_size = 300, w_index = None,
         w_doc_chunks = [''bad''], w_embedder_calls = [[''bad'']]\<rparr>)"
  by code_simp

lemma flaky_append:
  "ingest_documents flaky_embedder
     \<lparr>w_model_name = ''llama'', w_chunk_size = 300, w_index = None,
      w_doc_chunks = [''bad''], w_embedder_calls = [[''bad'']]\<rparr> [''good''] False
     = (Inr (),
        \<lparr>w_model_name = ''llama'', w_chunk_size = 300, w_index = Some [1],
         w_doc_chunks = [''bad'', ''good''], w_embedder_calls = [[''bad''], [''good'']]\<rparr>)"
  by code_simp

lemma flaky_refresh:
  "ingest_documents flaky_embedder
     \<lparr>w_model_name = ''llama'', w_chunk_size = 300, w_index = Some [1],
      w_doc_chunks = [''bad'', ''good''], w_embedder_calls = [[''bad''], [''good'']]\<rparr>
     [''good''] True
     = (Inr (),
        \<lparr>w_model_name = ''llama'', w_chunk_size = 300, w_index = Some [1],
         w_doc_chunks = [''good''],
         w_embedder_calls = [[''bad''], [''good''], [''good'']]\<rparr>)"
  by code_simp

text \<open>
  C2: the \<open>i\<close>-th vector of the index belongs to the \<open>i\<close>-th chunk of the parallel list,
  and the two have the same size. MCPWrapperOllama has this after every ingest_documents
  call that returns, when the call rebuilds (\<open>refresh=True\<close>) or the wrapper had it before,
  and so after every sequence of returning calls on a new wrapper; VectorIndex has it after
  every sequence of add_documents calls, raising or not. ingest_documents breaks it when the
  embedding model raises: the chunks of the document are already in \<open>doc_chunks\<close> and no
  vector is added. On a new wrapper, ingesting \<open>bad\<close> raises and leaves one chunk and no
  vector; the next incremental call, ingesting \<open>good\<close>, returns with the chunks \<open>bad\<close>,
  \<open>good\<close> and one vector, which belongs to the second chunk; a rebuild restores the
  correspondence.
\<close>

theorem ingest_documents_alignment:
  "(ingest_documents g w docs refresh = (Inr u, w') \<longrightarrow> refresh \<or> aligned g w \<longrightarrow>
      index_vectors w' = map (\<lambda>c. normalize_L2 g (embed g c)) (w_doc_chunks w')
      \<and> ntotal w' = length (w_doc_chunks w'))
   \<and> (run_ingests g (wrapper_init name csize) ops = Inr w2 \<longrightarrow>
      index_vectors w2 = map (\<lambda>c. normalize_L2 g (embed g c)) (w_doc_chunks w2)
      \<and> ntotal w2 = length (w_doc_chunks w2))
   \<and> vi_vectors (run_adds g vector_index_init batches)
       = map (embed g) (vi_text_chunks (run_adds g vector_index_init batches))
   \<and> length (vi_vectors (run_adds g vector_index_init batches))
       = length (vi_text_chunks (run_adds g vector_index_init batches))
   \<and> ingest_documents flaky_embedder (wrapper_init ''llama'' 300) [''bad''] False
       = (Inl (GatewayError ''embedding model unavailable''),
          \<lparr>w_model_name = ''llama'', w_chunk_size = 300, w_index = None,
           w_doc_chunks = [''bad''], w_embedder_calls = [[''bad'']]\<rparr>)
   \<and> ingest_documents flaky_embedder
         \<lparr>w_model_name = ''llama'', w_chunk_size = 300, w_index = None,
          w_doc_chunks = [''bad''], w_embedder_calls = [[''bad'']]\<rparr> [''good''] False
       = (Inr (),
          \<lparr>w_model_name = ''llama'', w_chunk_size = 300, w_index = Some [1],
           w_doc_chunks = [''bad'', ''good''], w_embedder_calls = [[''bad''], [''good'']]\<rparr>)
   \<and> ntotal \<lparr>w_model_name = ''llama'', w_chunk_size = 300, w_index = Some [1 :: real],
              w_doc_chunks = [''bad'', ''good''], w_embedder_calls = [[''bad''], [''good'']]\<rparr> = 1
   \<and> length (w_doc_chunks
         \<lparr>w_model_name = ''llama'', w_chunk_size = 300, w_index = Some [1 :: real],
          w_doc_chunks = [''bad'', ''good''], w_embedder_calls = [[''bad''], [''good'']]\<rparr>) = 2
   \<and> ingest_documents flaky_embedder
         \<lparr>w_model_name = ''llama'', w_chunk_size = 300, w_index = Some [1],
          w_doc_chunks = [''bad'', ''good''], w_embedder_calls = [[''bad''], [''good'']]\<rparr>
         [''good''] True
       = (Inr (),
          \<lparr>w_model_name = ''llama'', w_chunk_size = 300, w_index = Some [1],
           w_doc_chunks = [''good''],
           w_embedder_calls = [[''bad''], [''good''], [''good'']]\<rparr>)"
proof -
  have a: "ingest_documents g w docs refresh = (Inr u, w') \<longrightarrow> refresh \<or> aligned g w \<longrightarrow>
      index_vectors w' = map (\<lambda>c. normalize_L2 g (embed g c)) (w_doc_chunks w')
      \<and> ntotal w' = length (w_doc_chunks w')"
  proof (intro impI)
    assume "ingest_documents g w docs refresh = (Inr u, w')" "refresh \<or> aligned g w"
    then have al: "aligned g w'" by (rule ingest_documents_aligned)
    from al aligned_ntotal[OF al]
    show "index_vectors w' = map (\<lambda>c. normalize_L2 g (embed g c)) (w_doc_chunks w')
      \<and> ntotal w' = length (w_doc_chunks w')" by (simp add: aligned_def)
  qed
  have b: "run_ingests g (wrapper_init name csize) ops = Inr w2 \<longrightarrow>
      index_vectors w2 = map (\<lambda>c. normalize_L2 g (embed g c)) (w_doc_chunks w2)
      \<and> ntotal w2 = length (w_doc_chunks w2)"
  proof (intro impI)
    assume "run_ingests g (wrapper_init name csize) ops = Inr w2"
    with aligned_init have al: "aligned g w2" by (rule run_ingests_aligned)
    from al aligned_ntotal[OF al]
    show "index_vectors w2 = map (\<lambda>c. normalize_L2 g (embed g c)) (w_doc_chunks w2)
      \<and> ntotal w2 = length (w_doc_chunks w2)" by (simp add: aligned_def)
  qed
  have "vi_aligned g (run_adds g vector_index_init batches)"
    by (rule run_adds_aligned[OF vi_aligned_init])
  then have c: "vi_vectors (run_adds g vector_index_init batches)
       = map (embed g) (vi_text_chunks (run_adds g vector_index_init batches))"
    by (simp add: vi_aligned_def)
  have d: "length (vi_vectors (run_adds g vector_index_init batches))
       = length (vi_text_chunks (run_adds g vector_index_init batches))"
    by (simp add: c)
  have n: "ntotal \<lparr>w_model_name = ''llama'', w_chunk_size = 300, w_index = Some [1 :: real],
              w_doc_chunks = [''bad'', ''good''], w_embedder_calls = [[''bad''], [''good'']]\<rparr> = 1"
    by (simp add: ntotal_def)
  have l: "length (w_doc_chunks
         \<lparr>w_model_name = ''llama'', w_chunk_size = 300, w_index = Some [1 :: real],
          w_doc_chunks = [''bad'', ''good''], w_embedder_calls = [[''bad''], [''good'']]\<rparr>) = 2"
    by simp
  from a b c d flaky_raise flaky_append n l flaky_refresh show ?thesis by blast
qed

theorem ingest_documents_alignment_witness:
  "run_ingests toy_gateways (wrapper_init ''llama'' 2) [([''a b c''], True), ([''d''], False)]
     = Inr \<lparr>w_model_name = ''llama'', w_chunk_size = 2, w_index = Some [1, 1, 1],
            w_doc_chunks = [''a b'', ''c'', ''d''], w_embedder_calls = [[''a b'', ''c''], [''d'']]\<rparr>
   \<and> ntotal \<lparr>w_model_name = ''llama'', w_chunk_size = 2, w_index = Some [1, 1, 1 :: real],
            w_doc_chunks = [''a b'', ''c'', ''d''], w_embedder_calls = [[''a b'', ''c''], [''d'']]\<rparr>
       = length [''a b'', ''c'', ''d'']
   \<and> ntotal (snd (ingest_documents flaky_embedder
         \<lparr>w_model_name = ''llama'', w_chunk_size = 300, w_index = Some [1],
          w_doc_chunks = [''bad'', ''good''], w_embedder_calls = [[''bad''], [''good'']]\<rparr>
         [''good''] True)) = 1"
proof -
  let ?W = "\<lparr>w_model_name = ''llama'', w_chunk_size = 2, w_index = Some [1, 1, 1 :: real],
            w_doc_chunks = [''a b'', ''c'', ''d''], w_embedder_calls = [[''a b'', ''c''], [''d'']]\<rparr>"
  let ?B = "\<lparr>w_model_name = ''llama'', w_chunk_size = 300, w_index = Some [1 :: real],
          w_doc_chunks = [''bad'', ''good''], w_embedder_calls = [[''bad''], [''good'']]\<rparr>"
  let ?R = "\<lparr>w_model_name = ''llama'', w_chunk_size = 300, w_index = Some [1 :: real],
           w_doc_chunks = [''good''],
           w_embedder_calls = [[''bad''], [''good''], [''good'']]\<rparr>"
  have run: "run_ingests toy_gateways (wrapper_init ''llama'' 2) [([''a b c''], True), ([''d''], False)]
     = Inr ?W"
    by code_simp
  from ingest_documents_alignment
         [where g = toy_gateways and name = "''llama''" and csize = 2
            and ops = "[([''a b c''], True), ([''d''], False)]" and ?w2.0 = ?W] run
  have 1: "ntotal ?W = length (w_doc_chunks ?W)" by blast
  from ingest_documents_alignment
         [where g = flaky_embedder and w = ?B and docs = "[''good'']" and refresh = True
            and u = "()" and w' = ?R] flaky_refresh
  have 2: "ntotal ?R = length (w_doc_chunks ?R)" by blast
  from run 1 2 show ?thesis by (simp add: flaky_refresh)
qed

section \<open>MCPWrapperOllama: retrieval, prompts and generation\<close>

lemma retrieve_chunks_subset:
  assumes "retrieve_with_scores g w question top_k = (Inr (chunks, scores), w1)"
  shows "set chunks \<subseteq> set (w_doc_chunks w)"
proof (cases "w_index w")
  case None
  with assms show ?thesis by (simp add: retrieve_with_scores_def)
next
  case (Some vs)
  show ?thesis
  proof (cases "length (w_doc_chunks w) = 0")
    case True
    with assms Some show ?thesis by (simp add: retrieve_with_scores_def)
  next
    case False
    with assms Some show ?thesis
      by (auto simp: retrieve_with_scores_def Let_def
               split: sum.splits prod.splits dest: collect_index_subset)
  qed
qed

lemma build_prompt_strict:
  assumes "chunks \<noteq> []" "\<forall>c\<in>set chunks. c \<noteq> []"
  shows "build_prompt question chunks =
     ''Context:\<newline>'' @ py_join ''\<newline>\<newline>'' chunks @ ''\<newline>\<newline>Question:\<newline>'' @ question @ ''\<newline>Answer:''"
  using py_join_nonempty[OF assms, of "''\<newline>\<newline>''"] assms(1)
  by (simp add: build_prompt_def Let_def)

lemma query_cases:
  assumes r: "retrieve_with_scores g w question top_k = (Inr (chunks, scores), w1)"
    and inv: "\<forall>c\<in>set (w_doc_chunks w). c \<noteq> []"
  shows "query g w question strong_threshold weak_threshold top_k =
     (if chunks = []
      then (generate g (w_model_name w) (prompt_template UNGROUNDED [] question), w1)
      else case scores of
             [] \<Rightarrow> (Inl IndexError, w1)
           | s # rest \<Rightarrow>
               (generate g (w_model_name w)
                  (prompt_template (classify HigherIsBetter (Some s) strong_threshold weak_threshold)
                     (py_join ''\<newline>\<newline>'' chunks) question), w1))"
proof (cases "chunks = []")
  case True
  with r show ?thesis by (simp add: query_def query_prompt_def)
next
  case False
  from retrieve_chunks_subset[OF r] inv have ne: "\<forall>c\<in>set chunks. c \<noteq> []" by blast
  show ?thesis
  proof (cases scores)
    case Nil
    with r False show ?thesis by (simp add: query_def query_prompt_def)
  next
    case (Cons s rest)
    with r False show ?thesis
      by (simp add: query_def query_prompt_def classify_def build_prompt_strict[OF False ne])
  qed
qed



lemma plane_wrapper_ingested:
  "ingest_documents plane_gateways (wrapper_init ''llama'' 300) [''yes''] True
     = (Inr (), plane_wrapper)"
  unfolding plane_wrapper_def by code_simp



lemma plane_retrieve_maybe:
  "retrieve_with_scores plane_gateways plane_wrapper ''maybe'' 1
     = (Inr ([''yes''], [0.6]),
        plane_wrapper\<lparr>w_embedder_calls := [[''yes''], [''maybe'']]\<rparr>)"
  unfolding plane_wrapper_def by code_simp

lemma plane_wrapper_chunks: "\<forall>c\<in>set (w_doc_chunks plane_wrapper). c \<noteq> []"
  by (simp add: plane_wrapper_def)


lemma plane_wrapper_twice_ingested:
  "ingest_documents plane_gateways (wrapper_init ''llama'' 300) [''yes'', ''yes''] True
     = (Inr (), plane_wrapper_twice)"
  unfolding plane_wrapper_twice_def by code_simp

lemma plane_retrieve_no:
  "retrieve_with_scores (plane_gateways\<lparr>generate := gen\<rparr>) plane_wrapper_twice ''no'' 2
     = (Inr ([''yes'', ''yes''], []),
        plane_wrapper_twice\<lparr>w_embedder_calls := [[''yes''], [''yes''], [''no'']]\<rparr>)"
  by (simp add: retrieve_with_scores_def plane_wrapper_twice_def plane_gateways_def encode_def
        py_index_def Let_def)

text \<open>
  C7: for a non-empty retrieval the prompt query sends to the generation gateway is
  literally the template of the branch taken, with the retrieved chunks joined by a blank
  line as the context and the question substituted, and query returns what the gateway
  returns for it. query does this whenever the score list is not empty (the chunks of
  \<open>doc_chunks\<close> are never empty strings, \<open>ingest_documents_chunks_nonempty\<close>, which the
  strict branch's \<open>if context\<close> relies on). At the failing input it sends nothing: the
  wrapper holds the chunk \<open>yes\<close> twice and the question \<open>no\<close> has the opposite
  embedding, so both inner products are \<open>- 1\<close>; retrieve_with_scores keeps both chunks and
  drops both scores, and query raises IndexError on \<open>scores[0]\<close>, whatever the gateway.
\<close>

theorem query_prompt_literal:
  "(retrieve_with_scores g w question top_k = (Inr (chunks, s # rest), w1) \<longrightarrow>
      chunks \<noteq> [] \<longrightarrow> (\<forall>c\<in>set (w_doc_chunks w). c \<noteq> []) \<longrightarrow>
      query g w question strong_threshold weak_threshold top_k =
        (generate g (w_model_name w)
           (if s \<ge> strong_threshold
            then ''Context:\<newline>'' @ py_join ''\<newline>\<newline>'' chunks
                   @ ''\<newline>\<newline>Question:\<newline>'' @ question @ ''\<newline>Answer:''
            else if s \<ge> weak_threshold
            then ''Use the following context if relevant, but also apply your own reasoning:\<newline>''
                   @ py_join ''\<newline>\<newline>'' chunks
                   @ ''\<newline>\<newline>Question:\<newline>'' @ question @ ''\<newline>Answer:''
            else ''Question:\<newline>'' @ question @ ''\<newline>Answer:''), w1))
   \<and> ingest_documents plane_gateways (wrapper_init ''llama'' 300) [''yes'', ''yes''] True
       = (Inr (), plane_wrapper_twice)
   \<and> search_ip plane_gateways [(1, 0), (1, 0)] [(- 1, 0)] 2 = ([- 1, - 1], [0, 1])
   \<and> retrieve_with_scores (plane_gateways\<lparr>generate := gen\<rparr>) plane_wrapper_twice ''no'' 2
       = (Inr ([''yes'', ''yes''], []),
          plane_wrapper_twice\<lparr>w_embedder_calls := [[''yes''], [''yes''], [''no'']]\<rparr>)
   \<and> query (plane_gateways\<lparr>generate := gen\<rparr>) plane_wrapper_twice ''no'' 0.7 0.5 2
       = (Inl IndexError,
          plane_wrapper_twice\<lparr>w_embedder_calls := [[''yes''], [''yes''], [''no'']]\<rparr>)"
proof (intro conjI impI)
  assume r: "retrieve_with_scores g w question top_k = (Inr (chunks, s # rest), w1)"
    and ne: "chunks \<noteq> []" and inv: "\<forall>c\<in>set (w_doc_chunks w). c \<noteq> []"
  from query_cases[OF r inv, of strong_threshold weak_threshold] ne
  show "query g w question strong_threshold weak_threshold top_k =
        (generate g (w_model_name w)
           (if s \<ge> strong_threshold
            then ''Context:\<newline>'' @ py_join ''\<newline>\<newline>'' chunks
                   @ ''\<newline>\<newline>Question:\<newline>'' @ question @ ''\<newline>Answer:''
            else if s \<ge> weak_threshold
            then ''Use the following context if relevant, but also apply your own reasoning:\<newline>''
                   @ py_join ''\<newline>\<newline>'' chunks
                   @ ''\<newline>\<newline>Question:\<newline>'' @ question @ ''\<newline>Answer:''
            else ''Question:\<newline>'' @ question @ ''\<newline>Answer:''), w1)"
    by (simp add: classify_def)
next
  show "ingest_documents plane_gateways (wrapper_init ''llama'' 300) [''yes'', ''yes''] True
       = (Inr (), plane_wrapper_twice)" by (rule plane_wrapper_twice_ingested)
next
  show "search_ip plane_gateways [(1, 0), (1, 0)] [(- 1, 0)] 2 = ([- 1, - 1], [0, 1])"
    by code_simp
next
  show "retrieve_with_scores (plane_gateways\<lparr>generate := gen\<rparr>) plane_wrapper_twice ''no'' 2
       = (Inr ([''yes'', ''yes''], []),
          plane_wrapper_twice\<lparr>w_embedder_calls := [[''yes''], [''yes''], [''no'']]\<rparr>)"
    by (rule plane_retrieve_no)
next
  show "query (plane_gateways\<lparr>generate := gen\<rparr>) plane_wrapper_twice ''no'' 0.7 0.5 2
       = (Inl IndexError,
          plane_wrapper_twice\<lparr>w_embedder_calls := [[''yes''], [''yes''], [''no'']]\<rparr>)"
    by (simp add: query_def plane_retrieve_no query_prompt_def)
qed

theorem query_prompt_literal_witness:
  "query plane_gateways plane_wrapper ''maybe'' 0.5 0.3 1
     = (Inr ''echo: Context:\<newline>yes\<newline>\<newline>Question:\<newline>maybe\<newline>Answer:'',
        plane_wrapper\<lparr>w_embedder_calls := [[''yes''], [''maybe'']]\<rparr>)
   \<and> query plane_gateways plane_wrapper ''maybe'' 0.7 0.5 1
     = (Inr ''echo: Use the following context if relevant, but also apply your own reasoning:\<newline>yes\<newline>\<newline>Question:\<newline>maybe\<newline>Answer:'',
        plane_wrapper\<lparr>w_embedder_calls := [[''yes''], [''maybe'']]\<rparr>)
   \<and> query plane_gateways plane_wrapper ''maybe'' 0.9 0.8 1
     = (Inr ''echo: Question:\<newline>maybe\<newline>Answer:'',
        plane_wrapper\<lparr>w_embedder_calls := [[''yes''], [''maybe'']]\<rparr>)"
proof -
  have ne: "[''yes''] \<noteq> []" by simp
  have m: "w_model_name plane_wrapper = ''llama''" by (simp add: plane_wrapper_def)
  have g: "\<And>p. generate plane_gateways ''llama'' p = Inr (''echo: '' @ p)"
    by (simp add: plane_gateways_def)
  note lit = query_prompt_literal
         [where g = plane_gateways and w = plane_wrapper and question = "''maybe''" and top_k = 1
            and chunks = "[''yes'']" and s = "0.6" and rest = "[]"
            and ?w1.0 = "plane_wrapper\<lparr>w_embedder_calls := [[''yes''], [''maybe'']]\<rparr>",
          THEN conjunct1, THEN mp, OF plane_retrieve_maybe, THEN mp, OF ne,
          THEN mp, OF plane_wrapper_chunks]
  from lit[of "0.5" "0.3"] lit[of "0.7" "0.5"] lit[of "0.9" "0.8"]
  show ?thesis unfolding m g by simp
qed

text \<open>
  C9: if the generation gateway raises on the prompt query has built, query raises that
  same error and returns no answer; an answer that query returns is always one the gateway
  returned for some prompt; and with the gateway failing on every prompt, query never
  returns an answer.
\<close>

theorem query_generation_failure:
  "(retrieve_with_scores g w question top_k = (Inr (chunks, scores), w1) \<longrightarrow>
    query_prompt question chunks scores strong_threshold weak_threshold = Inr prompt \<longrightarrow>
    generate g (w_model_name w) prompt = Inl e \<longrightarrow>
      query g w question strong_threshold weak_threshold top_k = (Inl e, w1))
   \<and> (fst (query g w question strong_threshold weak_threshold top_k) = Inr answer \<longrightarrow>
        (\<exists>p. generate g (w_model_name w) p = Inr answer))
   \<and> ((\<forall>p. \<exists>e'. generate g (w_model_name w) p = Inl e') \<longrightarrow>
        (\<exists>e'. fst (query g w question strong_threshold weak_threshold top_k) = Inl e'))"
proof (intro conjI impI)
  assume "retrieve_with_scores g w question top_k = (Inr (chunks, scores), w1)"
    "query_prompt question chunks scores strong_threshold weak_threshold = Inr prompt"
    "generate g (w_model_name w) prompt = Inl e"
  then show "query g w question strong_threshold weak_threshold top_k = (Inl e, w1)"
    by (simp add: query_def)
next
  assume "fst (query g w question strong_threshold weak_threshold top_k) = Inr answer"
  then show "\<exists>p. generate g (w_model_name w) p = Inr answer"
    by (auto simp: query_def split: prod.splits sum.splits)
next
  assume down: "\<forall>p. \<exists>e'. generate g (w_model_name w) p = Inl e'"
  show "\<exists>e'. fst (query g w question strong_threshold weak_threshold top_k) = Inl e'"
  proof (cases "fst (query g w question strong_threshold weak_threshold top_k)")
    case (Inl e') then show ?thesis by blast
  next
    case (Inr answer)
    then have "\<exists>p. generate g (w_model_name w) p = Inr answer"
      by (auto simp: query_def split: prod.splits sum.splits)
    with down show ?thesis by (metis sum.distinct(1))
  qed
qed

text \<open>
  C1 at a failing input: the index holds the one chunk \<open>yes\<close>, the question \<open>no\<close> has
  the opposite embedding, so the best (and only) inner product is \<open>- 1\<close>.
  retrieve_with_scores keeps the chunk (its position is not \<open>- 1\<close>) and drops the score
  (its value is \<open>- 1\<close>); query then reads \<open>scores[0]\<close> of an empty list and raises
  IndexError, where the classification by the best score is UNGROUNDED.
\<close>

theorem query_score_filter_failing_input:
  "ingest_documents toy_gateways (wrapper_init ''llama'' 300) [''yes''] True
     = (Inr (), \<lparr>w_model_name = ''llama'', w_chunk_size = 300, w_index = Some [1],
                 w_doc_chunks = [''yes''], w_embedder_calls = [[''yes'']]\<rparr>)
   \<and> search_ip toy_gateways [1] [- 1] 1 = ([- 1], [0])
   \<and> fst (retrieve_with_scores toy_gateways
            \<lparr>w_model_name = ''llama'', w_chunk_size = 300, w_index = Some [1],
              w_doc_chunks = [''yes''], w_embedder_calls = [[''yes'']]\<rparr> ''no'' 1)
       = Inr ([''yes''], [])
   \<and> fst (query toy_gateways
            \<lparr>w_model_name = ''llama'', w_chunk_size = 300, w_index = Some [1],
              w_doc_chunks = [''yes''], w_embedder_calls = [[''yes'']]\<rparr> ''no'' 0.7 0.5 1)
       = Inl IndexError
   \<and> classify HigherIsBetter (Some (- 1)) 0.7 0.5 = UNGROUNDED"
  by code_simp

theorem query_generation_failure_witness:
  "query generator_down (wrapper_init ''llama'' 300) ''why?'' 0.7 0.5 5
     = (Inl (GatewayError ''ollama unavailable''), wrapper_init ''llama'' 300)"
proof -
  have r: "retrieve_with_scores generator_down (wrapper_init ''llama'' 300) ''why?'' 5
             = (Inr ([], []), wrapper_init ''llama'' 300)"
    by (simp add: retrieve_with_scores_def wrapper_init_def)
  have p: "query_prompt ''why?'' [] [] 0.7 0.5 = Inr ''Question:\<newline>why?\<newline>Answer:''"
    by (simp add: query_prompt_def)
  have g: "generate generator_down (w_model_name (wrapper_init ''llama'' 300 :: real wrapper))
             ''Question:\<newline>why?\<newline>Answer:'' = Inl (GatewayError ''ollama unavailable'')"
    by (simp add: generator_down_def toy_gateways_def)
  from query_generation_failure
         [of generator_down "wrapper_init ''llama'' 300" "''why?''" 5 "[]" "[]"
             "wrapper_init ''llama'' 300" "0.7" "0.5" "''Question:\<newline>why?\<newline>Answer:''"
             "GatewayError ''ollama unavailable''"]
       r p g
  show ?thesis by blast
qed

lemma query_without_index:
  assumes "w_index w = None \<or> w_doc_chunks w = []"
  shows "query g w question strong_threshold weak_threshold top_k
           = (generate g (w_model_name w) (prompt_template UNGROUNDED [] question), w)"
  using assms
  by (auto simp: query_def retrieve_with_scores_def query_prompt_def split: option.splits)

section \<open>MCPServer.ingest_file: result shapes and idempotence\<close>

lemma chunk_text_defaults_return: "\<exists>chunks. chunk_text content 512 64 fid fname ftype = Some chunks"
  unfolding chunk_text_def by (rule chunk_loop_terminates) simp

lemma dict_set_key: "k \<in> fst ` set (dict_set d k v)"
  by (induction d k v rule: dict_set.induct) auto

lemma save_files_db_ingested_files: "ingested_files (save_files_db wd s) = ingested_files s"
  by (simp add: save_files_db_def split: write_result.splits)




lemma get_file_hash_same_reads:
  "file_open wd p0 = file_open wd p \<Longrightarrow> file_read wd p0 = file_read wd p
     \<Longrightarrow> get_file_hash wd p0 = get_file_hash wd p"
  by (simp add: get_file_hash_def split: option.splits)

text \<open>The three result shapes of ingest_file.\<close>

lemma ingest_file_try_hashed:
  assumes "get_file_hash wd file_path = Some h"
  shows "\<exists>r s'. ingest_file_try g wd s file_path metadata = Some (r, s')
      \<and> (\<forall>res. r = Inr res \<longrightarrow>
            (map_of res ''status'' = Some (PyStr ''success'') \<and> map_of res ''error'' = None
               \<and> h \<in> fst ` set (ingested_files s'))
          \<or> (map_of res ''status'' = Some (PyStr ''already_exists'') \<and> map_of res ''error'' = None)
          \<or> (map_of res ''status'' = None
               \<and> map_of res ''error'' = Some (PyStr (''File not found: '' @ file_path))))"
proof -
  obtain chunks where ct:
    "chunk_text (extract_content wd file_path
        (case guess_type wd file_path of None \<Rightarrow> ''unknown''
         | Some t \<Rightarrow> if t = [] then ''unknown'' else t)
        (case stat_size wd file_path of Inr n \<Rightarrow> n | Inl e \<Rightarrow> 0)) 512 64
        (Some h) (Some (path_name wd file_path))
        (Some (case guess_type wd file_path of None \<Rightarrow> ''unknown''
         | Some t \<Rightarrow> if t = [] then ''unknown'' else t)) = Some chunks"
    using chunk_text_defaults_return by blast
  show ?thesis
    unfolding ingest_file_try_def Let_def using ct assms
    by (auto simp: save_files_db_ingested_files dict_set_key
          split: sum.splits bool.splits prod.splits option.splits)
qed

lemma ingest_file_try_absent:
  assumes "path_exists wd file_path \<noteq> Inr True"
  shows "\<exists>r s'. ingest_file_try g wd s file_path metadata = Some (r, s')
      \<and> (\<forall>res. r = Inr res \<longrightarrow>
            map_of res ''status'' = None
               \<and> map_of res ''error'' = Some (PyStr (''File not found: '' @ file_path)))"
  using assms unfolding ingest_file_try_def
  by (auto split: sum.splits bool.splits)

lemma ingest_file_try_unhashed:
  assumes "path_exists wd file_path = Inr True" and "get_file_hash wd file_path = None"
  shows "ingest_file_try g wd s file_path metadata = None"
  using assms by (simp add: ingest_file_try_def)



lemma ingest_file_success_key:
  assumes "ingest_file g wd s file_path metadata = Some (r, s1)"
    and "map_of r ''status'' = Some (PyStr ''success'')"
  shows "\<exists>h. get_file_hash wd file_path = Some h \<and> h \<in> fst ` set (ingested_files s1)"
proof (cases "path_exists wd file_path = Inr True")
  case False
  from ingest_file_try_absent[OF False, of g s metadata] assms show ?thesis
    by (auto simp: ingest_file_def split: sum.splits)
next
  case True
  show ?thesis
  proof (cases "get_file_hash wd file_path")
    case None
    from ingest_file_try_unhashed[OF True None, of g s metadata] assms show ?thesis
      by (simp add: ingest_file_def)
  next
    case (Some h)
    from ingest_file_try_hashed[OF Some, of g s metadata] assms Some show ?thesis
      by (auto simp: ingest_file_def split: sum.splits)
  qed
qed

lemma ingest_file_known_hash:
  assumes "path_exists wd p = Inr True" and "stat_size wd p = Inr n"
    and "get_file_hash wd p = Some h" and "h \<in> fst ` set (ingested_files s)"
  shows "ingest_file g wd s p md =
           Some ([(''status'', PyStr ''already_exists''),
                  (''file_id'', PyStr h),
                  (''message'', PyStr (''File already ingested: '' @ path_name wd p))], s)"
  using assms by (simp add: ingest_file_def ingest_file_try_def Let_def)




text \<open>
  C3: when the file exists and its hash is a key of \<open>ingested_files\<close> (in particular
  when the server is the one left by a successful ingest_file of a file with the same
  bytes), ingest_file returns the \<open>already_exists\<close> result with that hash and the server
  unchanged: the same stored records, vector index, chunk metadata and saved file.
\<close>

theorem ingest_file_already_exists:
  assumes "path_exists wd p = Inr True" and "stat_size wd p = Inr n"
    and "(\<exists>h. get_file_hash wd p = Some h \<and> h \<in> fst ` set (ingested_files s))
         \<or> (\<exists>s0 p0 md0 r0. ingest_file g wd s0 p0 md0 = Some (r0, s)
                \<and> map_of r0 ''status'' = Some (PyStr ''success'')
                \<and> file_open wd p0 = file_open wd p \<and> file_read wd p0 = file_read wd p)"
  shows "\<exists>h. get_file_hash wd p = Some h
           \<and> ingest_file g wd s p md =
               Some ([(''status'', PyStr ''already_exists''),
                      (''file_id'', PyStr h),
                      (''message'', PyStr (''File already ingested: '' @ path_name wd p))], s)"
proof -
  have "\<exists>h. get_file_hash wd p = Some h \<and> h \<in> fst ` set (ingested_files s)"
    using assms(3)
  proof
    assume "\<exists>h. get_file_hash wd p = Some h \<and> h \<in> fst ` set (ingested_files s)"
    then show ?thesis .
  next
    assume "\<exists>s0 p0 md0 r0. ingest_file g wd s0 p0 md0 = Some (r0, s)
                \<and> map_of r0 ''status'' = Some (PyStr ''success'')
                \<and> file_open wd p0 = file_open wd p \<and> file_read wd p0 = file_read wd p"
    then obtain s0 p0 md0 r0 where a: "ingest_file g wd s0 p0 md0 = Some (r0, s)"
      and b: "map_of r0 ''status'' = Some (PyStr ''success'')"
      and c: "file_open wd p0 = file_open wd p" "file_read wd p0 = file_read wd p" by blast
    have "get_file_hash wd p0 = get_file_hash wd p" using c by (rule get_file_hash_same_reads)
    with ingest_file_success_key[OF a b] show ?thesis by simp
  qed
  then obtain h where h: "get_file_hash wd p = Some h" "h \<in> fst ` set (ingested_files s)" by blast
  from ingest_file_known_hash[OF assms(1,2) h, of g md] h(1) show ?thesis by blast
qed

lemma toy_first:
  "ingest_file toy_gateways toy_world (server_init None) ''a.txt'' None =
     Some ([(''status'', PyStr ''success''), (''file_id'', PyStr ''sha:hello world''),
            (''name'', PyStr ''a.txt''), (''size'', PyInt 11), (''type'', PyStr ''text/plain'')],
           \<lparr>ingested_files =
              [(''sha:hello world'',
                \<lparr>fi_id = ''sha:hello world'', fi_name = ''a.txt'', fi_path = ''/data/a.txt'',
                 fi_size = 11, fi_type = ''text/plain'', fi_content = ''hello world'',
                 fi_ingested_at = ''2024-01-01T00:00:00'', fi_metadata = []\<rparr>)],
            vector_index =
              \<lparr>vi_index = Some [1], vi_text_chunks = [''hello world''], vi_embeddings = Some [1]\<rparr>,
            chunk_metadata =
              Some [\<lparr>c_text = ''hello world'', c_file_id = Some ''sha:hello world'',
                     c_file_name = Some ''a.txt'', c_file_type = Some ''text/plain''\<rparr>],
            files_db_json =
              Some [(''sha:hello world'',
                \<lparr>fi_id = ''sha:hello world'', fi_name = ''a.txt'', fi_path = ''/data/a.txt'',
                 fi_size = 11, fi_type = ''text/plain'', fi_content = ''hello world'',
                 fi_ingested_at = ''2024-01-01T00:00:00'', fi_metadata = []\<rparr>)]\<rparr>)"
  by code_simp

lemma toy_copy_hash: "get_file_hash toy_world ''copy.txt'' = Some ''sha:hello world''"
  by code_simp

theorem ingest_file_already_exists_witness:
  "\<exists>r s. ingest_file toy_gateways toy_world (server_init None) ''a.txt'' None = Some (r, s)
        \<and> map_of r ''status'' = Some (PyStr ''success'')
        \<and> ingest_file toy_gateways toy_world s ''copy.txt'' None
            = Some ([(''status'', PyStr ''already_exists''),
                     (''file_id'', PyStr ''sha:hello world''),
                     (''message'', PyStr ''File already ingested: copy.txt'')], s)"
proof -
  obtain r s where first: "ingest_file toy_gateways toy_world (server_init None) ''a.txt'' None = Some (r, s)"
    and st: "map_of r ''status'' = Some (PyStr ''success'')"
    using toy_first by simp
  have e: "path_exists toy_world ''copy.txt'' = Inr True"
    and z: "stat_size toy_world ''copy.txt'' = Inr 11"
    and b: "file_open toy_world ''a.txt'' = file_open toy_world ''copy.txt''"
           "file_read toy_world ''a.txt'' = file_read toy_world ''copy.txt''"
    by (simp_all add: toy_world_def)
  have n: "path_name toy_world ''copy.txt'' = ''copy.txt''"
    by (simp add: toy_world_def)
  from first st b
  have "(\<exists>h. get_file_hash toy_world ''copy.txt'' = Some h \<and> h \<in> fst ` set (ingested_files s))
         \<or> (\<exists>s0 p0 md0 r0. ingest_file toy_gateways toy_world s0 p0 md0 = Some (r0, s)
                \<and> map_of r0 ''status'' = Some (PyStr ''success'')
                \<and> file_open toy_world p0 = file_open toy_world ''copy.txt''
                \<and> file_read toy_world p0 = file_read toy_world ''copy.txt'')"
    by blast
  from ingest_file_already_exists[OF e z this, of None] first st show ?thesis
    by (auto simp: toy_copy_hash n)
qed

section \<open>The chat application: incremental synchronisation\<close>









end
